theory Spec2Isabelle
  imports Complex_Main "HOL-Library.Product_Lexorder"
begin

section \<open>Parabolic band structures of \<^verbatim>\<open>sbe/semiconductors.py\<close>\<close>

text \<open>
  The development embeds the module \<^verbatim>\<open>sbe/semiconductors.py\<close>. Python and numpy
  floating-point numbers are modelled by real numbers: finite values are exact, rounding
  and overflow are not represented. Where the source itself produces or consumes the
  IEEE special values (\<^verbatim>\<open>np.nan_to_num\<close>, a numpy division whose divisor
  may vanish), the value is of type \<open>npf\<close>, which adds the two infinities and NaN to the
  reals. Exceptions are values of type \<open>error\<close>, returned on the left of a sum.
\<close>

subsection \<open>Exceptions and Python indexing\<close>

datatype error =
  ValueError | IndexError | TypeError | ZeroDivisionError | AttributeError | KeyError

text \<open>
  Indexing of a one-dimensional numpy array (or a tuple) by a Python integer: negative
  indices count from the end, anything outside raises \<^verbatim>\<open>IndexError\<close>.
\<close>

definition np_get :: "'a list \<Rightarrow> int \<Rightarrow> error + 'a" where
  "np_get xs i =
     (if 0 \<le> i \<and> i < int (length xs) then Inr (xs ! nat i)
      else if i < 0 \<and> - int (length xs) \<le> i then Inr (xs ! nat (int (length xs) + i))
      else Inl IndexError)"

text \<open>Division of two Python floats raises on a zero divisor.\<close>

definition py_div :: "real \<Rightarrow> real \<Rightarrow> error + real" where
  "py_div a b = (if b = 0 then Inl ZeroDivisionError else Inr (a / b))"

text \<open>Reading an attribute that the object may lack.\<close>

definition attr :: "'a option \<Rightarrow> error + 'a" where
  "attr a = (case a of None \<Rightarrow> Inl AttributeError | Some v \<Rightarrow> Inr v)"

subsection \<open>Numpy values with infinities and NaN\<close>

datatype npf = Fin real | PInf | NInf | NaN

definition inf_signed :: "real \<Rightarrow> npf" where
  "inf_signed a = (if 0 < a then PInf else if a < 0 then NInf else NaN)"

fun sign_of :: "npf \<Rightarrow> real" where
  "sign_of (Fin a) = sgn a"
| "sign_of PInf = 1"
| "sign_of NInf = - 1"
| "sign_of NaN = 0"

fun npf_neg :: "npf \<Rightarrow> npf" where
  "npf_neg (Fin a) = Fin (- a)"
| "npf_neg PInf = NInf"
| "npf_neg NInf = PInf"
| "npf_neg NaN = NaN"

fun npf_mul :: "npf \<Rightarrow> npf \<Rightarrow> npf" where
  "npf_mul (Fin a) (Fin b) = Fin (a * b)"
| "npf_mul NaN y = NaN"
| "npf_mul x NaN = NaN"
| "npf_mul x y = inf_signed (sign_of x * sign_of y)"

fun npf_add :: "npf \<Rightarrow> npf \<Rightarrow> npf" where
  "npf_add (Fin a) (Fin b) = Fin (a + b)"
| "npf_add NaN y = NaN"
| "npf_add x NaN = NaN"
| "npf_add PInf NInf = NaN"
| "npf_add NInf PInf = NaN"
| "npf_add (Fin a) y = y"
| "npf_add x y = x"

definition npf_sub :: "npf \<Rightarrow> npf \<Rightarrow> npf" where
  "npf_sub x y = npf_add x (npf_neg y)"

text \<open>Numpy division of two finite floats: a zero divisor gives an infinity or NaN.\<close>

definition np_div :: "real \<Rightarrow> real \<Rightarrow> npf" where
  "np_div a b = (if b = 0 then inf_signed a else Fin (a / b))"

fun npf_div :: "npf \<Rightarrow> npf \<Rightarrow> npf" where
  "npf_div (Fin a) (Fin b) = np_div a b"
| "npf_div NaN y = NaN"
| "npf_div x NaN = NaN"
| "npf_div (Fin a) y = Fin 0"
| "npf_div x (Fin b) = inf_signed (sign_of x * (if b < 0 then - 1 else 1))"
| "npf_div x y = NaN"

definition np_sqrt :: "real \<Rightarrow> npf" where
  "np_sqrt a = (if a < 0 then NaN else Fin (sqrt a))"

text \<open>
  \<^verbatim>\<open>base ** ex\<close> on a numpy array element: a negative base with a fractional exponent
  is NaN, zero to a negative power is infinite.
\<close>

definition np_pow :: "real \<Rightarrow> real \<Rightarrow> npf" where
  "np_pow base ex =
     (if 0 < base then Fin (base powr ex)
      else if base = 0 then (if 0 < ex then Fin 0 else if ex = 0 then Fin 1 else PInf)
      else if ex = of_int \<lfloor>ex\<rfloor> then Fin (base powi \<lfloor>ex\<rfloor>)
      else NaN)"

text \<open>
  \<^verbatim>\<open>base ** ex\<close> on Python floats. A negative base with a fractional exponent gives a
  complex number; in \<^verbatim>\<open>_dos_single_subband\<close> the complex factor makes the array
  complex and the in-place addition to the float array \<^verbatim>\<open>dos\<close> raises a
  \<^verbatim>\<open>TypeError\<close>, which is the outcome recorded here.
\<close>

definition py_pow :: "real \<Rightarrow> real \<Rightarrow> error + real" where
  "py_pow base ex =
     (if 0 < base then Inr (base powr ex)
      else if base = 0 then
        (if 0 < ex then Inr 0 else if ex = 0 then Inr 1 else Inl ZeroDivisionError)
      else if ex = of_int \<lfloor>ex\<rfloor> then Inr (base powi \<lfloor>ex\<rfloor>)
      else Inl TypeError)"

text \<open>The largest finite double, which \<^verbatim>\<open>np.nan_to_num\<close> puts in place of infinity.\<close>

definition float_max :: real where
  "float_max = (2 - 1 / 2 ^ 52) * 2 ^ 1023"

fun nan_to_num :: "npf \<Rightarrow> real" where
  "nan_to_num (Fin a) = a"
| "nan_to_num NaN = 0"
| "nan_to_num PInf = float_max"
| "nan_to_num NInf = - float_max"

subsection \<open>Constants and material descriptors\<close>

text \<open>
  Modelled from the spec: the constants provider \<^verbatim>\<open>sbe.constants\<close> is not among the
  sources. The spec describes it as process-wide read-only physical constants (pure
  data), so the constants the band structure reads are parameters: the electron charge
  \<^verbatim>\<open>const.e\<close>, Planck's constant \<^verbatim>\<open>const.h\<close>, the free-electron mass
  \<^verbatim>\<open>const.m0\<close> and the Boltzmann constant \<^verbatim>\<open>const.kb\<close>, each a Python float.
\<close>

record constants =
  const_e :: real
  const_h :: real
  const_m0 :: real
  const_kb :: real

text \<open>Physical constants are positive; theorems that divide by one assume this.\<close>

definition consts_ok :: "constants \<Rightarrow> bool" where
  "consts_ok cs = (0 < const_e cs \<and> 0 < const_h cs \<and> 0 < const_m0 cs \<and> 0 < const_kb cs)"

text \<open>
  The attribute \<^verbatim>\<open>mh\<close> of a material is the tuple \<^verbatim>\<open>(mhh, mlh, mso)\<close> in class
  \<^verbatim>\<open>GaAs\<close> and a single float in class \<^verbatim>\<open>Tc\<close>.
\<close>

datatype mass = MScalar real | MTuple "real list"

text \<open>
  A material descriptor holds the attributes the band-structure classes read. The
  attributes \<^verbatim>\<open>mhh\<close>, \<^verbatim>\<open>mlh\<close>, \<^verbatim>\<open>mso\<close> and \<^verbatim>\<open>e_P\<close> exist in class
  \<^verbatim>\<open>GaAs\<close> only, hence the options. The dielectric and exciton scaling attributes
  (\<^verbatim>\<open>eps\<close>, \<^verbatim>\<open>n_reff\<close>, \<^verbatim>\<open>mr\<close>, \<^verbatim>\<open>a_0\<close>, \<^verbatim>\<open>E_0\<close>) are read by no
  band-structure method and are left out.
\<close>

record material =
  Eg :: real
  me :: real
  mh :: mass
  mhh :: "real option"
  mlh :: "real option"
  mso :: "real option"
  e_P :: "real option"

text \<open>
  \<^verbatim>\<open>GaAs.__init__(tempr, tempr_dep)\<close>. The Luttinger parameters give
  \<^verbatim>\<open>gamma = 0.5 * (gamma2 + gamma2) = 2.06\<close>, so \<^verbatim>\<open>mhh = m0 / (6.98 - 2 * 2.06)\<close>
  and \<^verbatim>\<open>mlh = m0 / (6.98 + 2 * 2.06)\<close>. The Varshni shift divides by
  \<^verbatim>\<open>tempr + betha\<close>, the O'Donnell-Chen shift by \<^verbatim>\<open>2 * const.kb * tempr\<close>, both
  as Python floats.
\<close>

definition GaAs_Eg :: "constants \<Rightarrow> real \<Rightarrow> string \<Rightarrow> error + real" where
  "GaAs_Eg cs tempr tempr_dep =
     (let Eg0 = 1.519 * const_e cs in
      if tempr_dep = ''varshni'' then
        (case py_div (const_e cs * 0.001 * 0.605 * tempr * tempr) (tempr + 204) of
           Inl er \<Rightarrow> Inl er
         | Inr q \<Rightarrow> Inr (Eg0 - q))
      else if tempr_dep = ''odonnell'' then
        (case py_div (26.7 * const_e cs * 0.001) (2 * const_kb cs * tempr) of
           Inl er \<Rightarrow> Inl er
         | Inr x \<Rightarrow> Inr (Eg0 - const_e cs * 0.001 * 26.7 * 3.0 * (1.0 / tanh x - 1.0)))
      else Inr Eg0)"

definition GaAs :: "constants \<Rightarrow> real \<Rightarrow> string \<Rightarrow> error + material" where
  "GaAs cs tempr tempr_dep =
     (let gamma1 = 6.98; gamma2 = 2.06; gamma = 0.5 * (gamma2 + gamma2);
          m_hh = const_m0 cs / (gamma1 - 2 * gamma);
          m_lh = const_m0 cs / (gamma1 + 2 * gamma);
          m_so = 0.172 * const_m0 cs
      in case GaAs_Eg cs tempr tempr_dep of
           Inl er \<Rightarrow> Inl er
         | Inr g \<Rightarrow>
             Inr \<lparr>Eg = g, me = 0.0665 * const_m0 cs, mh = MTuple [m_hh, m_lh, m_so],
                  mhh = Some m_hh, mlh = Some m_lh, mso = Some m_so, e_P = Some 28.8\<rparr>)"

text \<open>\<^verbatim>\<open>Tc.__init__\<close>: a two-band material with one scalar hole mass.\<close>

definition Tc :: "constants \<Rightarrow> material" where
  "Tc cs = \<lparr>Eg = 1.519 * const_e cs, me = 2 * const_m0 cs, mh = MScalar (2 * const_m0 cs),
            mhh = None, mlh = None, mso = None, e_P = None\<rparr>"

subsection \<open>The band-structure classes\<close>

text \<open>
  An interpolant is the object \<^verbatim>\<open>scipy.interpolate.interp1d\<close> builds: the sample
  points sorted by abscissa. One cache entry is the dictionary \<^verbatim>\<open>self.ef[tempr]\<close>,
  whose keys \<^verbatim>\<open>"elec"\<close> and \<^verbatim>\<open>"holes"\<close> are filled one after the other.
\<close>

record interp =
  ip_x :: "npf list"
  ip_y :: "real list"

record ef_entry =
  elec :: "interp option"
  holes :: "interp option"

text \<open>
  The instance attributes of \<^verbatim>\<open>BandStructure3D\<close> and of its subclass
  \<^verbatim>\<open>BandStructureQW\<close>. The constructor reads \<^verbatim>\<open>self.mat.Eg\<close>, so \<^verbatim>\<open>self.mat\<close>
  is never \<^verbatim>\<open>None\<close> in a constructed instance and the branches
  \<^verbatim>\<open>if self.mat is not None\<close> are always taken.
\<close>

record BandStructure =
  bs_dim :: nat
  mat :: material
  edges_c :: "real list"
  edges_v :: "real list"
  n_sb_e :: nat
  n_sb_h :: nat
  ef :: "real \<rightharpoonup> ef_entry"

definition BandStructure3D_init :: "material \<Rightarrow> real list \<Rightarrow> real list \<Rightarrow> BandStructure" where
  "BandStructure3D_init m ec ev =
     (let ec' = map (\<lambda>x. x + Eg m) ec
      in \<lparr>bs_dim = 3, mat = m, edges_c = ec', edges_v = ev,
          n_sb_e = length ec', n_sb_h = length ev, ef = Map.empty\<rparr>)"

definition BandStructureQW_init :: "material \<Rightarrow> real list \<Rightarrow> real list \<Rightarrow> BandStructure" where
  "BandStructureQW_init m ec ev = (BandStructure3D_init m ec ev)\<lparr>bs_dim := 2\<rparr>"

text \<open>
  \<^verbatim>\<open>edges[j] + s * const.h**2 * k**2 / (2 * m)\<close> for a scalar wavevector \<open>k\<close>: the
  edge is read first, then the mass attribute, then the Python division.
\<close>

definition parabola :: "constants \<Rightarrow> real list \<Rightarrow> int \<Rightarrow> real \<Rightarrow> real \<Rightarrow> real option \<Rightarrow> error + real" where
  "parabola cs edges j s k m =
     (case np_get edges j of
        Inl er \<Rightarrow> Inl er
      | Inr ed \<Rightarrow>
          (case attr m of
             Inl er \<Rightarrow> Inl er
           | Inr mm \<Rightarrow>
               (case py_div ((const_h cs)\<^sup>2 * k\<^sup>2) (2 * mm) of
                  Inl er \<Rightarrow> Inl er
                | Inr q \<Rightarrow> Inr (ed + s * q))))"

text \<open>
  \<^verbatim>\<open>BandStructure3D._cond_band\<close> and \<^verbatim>\<open>BandStructure3D._val_band\<close>. The result
  \<open>Inr None\<close> is the Python value \<^verbatim>\<open>None\<close>.
\<close>

definition cond_band_3D :: "constants \<Rightarrow> BandStructure \<Rightarrow> int \<Rightarrow> real \<Rightarrow> error + real option" where
  "cond_band_3D cs bs j k =
     (if j \<ge> int (n_sb_e bs) then Inl ValueError
      else map_sum id Some (parabola cs (edges_c bs) j 1 k (Some (me (mat bs)))))"

definition val_band_3D :: "constants \<Rightarrow> BandStructure \<Rightarrow> int \<Rightarrow> real \<Rightarrow> error + real option" where
  "val_band_3D cs bs j k =
     (if j \<ge> int (n_sb_h bs) then Inl ValueError
      else if j = 0 then map_sum id Some (parabola cs (edges_v bs) j (- 1) k (mhh (mat bs)))
      else if j = 1 then map_sum id Some (parabola cs (edges_v bs) j (- 1) k (mlh (mat bs)))
      else if j = 2 then map_sum id Some (parabola cs (edges_v bs) j (- 1) k (mso (mat bs)))
      else Inr None)"

text \<open>
  \<^verbatim>\<open>BandStructureQW._cond_band\<close> and \<^verbatim>\<open>BandStructureQW._val_band\<close>. The valence
  method compares the index with \<^verbatim>\<open>self.n_sb_e\<close>, and divides by \<^verbatim>\<open>2 * self.mat.mh\<close>:
  with a tuple for \<^verbatim>\<open>mh\<close> the product is a tuple and the division raises
  \<^verbatim>\<open>TypeError\<close>.
\<close>

definition cond_band_QW :: "constants \<Rightarrow> BandStructure \<Rightarrow> int \<Rightarrow> real \<Rightarrow> error + real option" where
  "cond_band_QW cs bs j k =
     (if j \<ge> int (n_sb_e bs) then Inl ValueError
      else map_sum id Some (parabola cs (edges_c bs) j 1 k (Some (me (mat bs)))))"

definition val_band_QW :: "constants \<Rightarrow> BandStructure \<Rightarrow> int \<Rightarrow> real \<Rightarrow> error + real option" where
  "val_band_QW cs bs j k =
     (if j \<ge> int (n_sb_e bs) then Inl ValueError
      else
        (case np_get (edges_v bs) j of
           Inl er \<Rightarrow> Inl er
         | Inr ed \<Rightarrow>
             (case mh (mat bs) of
                MTuple t \<Rightarrow> Inl TypeError
              | MScalar mm \<Rightarrow>
                  (case py_div ((const_h cs)\<^sup>2 * k\<^sup>2) (2 * mm) of
                     Inl er \<Rightarrow> Inl er
                   | Inr q \<Rightarrow> Inr (Some (ed - q))))))"

subsection \<open>Density of states\<close>

text \<open>
  One element of the array expression of \<^verbatim>\<open>_dos_single_subband\<close>, for the scalar
  prefactor \<open>P = omega_D / (2 * pi) ** dim * (2 * meff / h / h) ** (dim / 2)\<close>:
  \<^verbatim>\<open>nan_to_num(P * (energy * alpha) ** ((dim - 2) / 2) * (sign(energy) + 1.0) * 0.5)\<close>
  with \<^verbatim>\<open>alpha = const.e\<close> (the units are always \<^verbatim>\<open>'eV'\<close>).
\<close>

definition dos_elem :: "constants \<Rightarrow> real \<Rightarrow> nat \<Rightarrow> real \<Rightarrow> real" where
  "dos_elem cs P d E =
     nan_to_num
       (npf_mul
          (npf_mul (npf_mul (Fin P) (np_pow (E * const_e cs) ((real d - 2) / 2)))
             (Fin (sgn E + 1.0)))
          (Fin 0.5))"

definition dos_single_subband :: "constants \<Rightarrow> real list \<Rightarrow> real \<Rightarrow> nat \<Rightarrow> error + real list" where
  "dos_single_subband cs energy meff d =
     (let omega_D = (if d = 1 then 2 else if d = 2 then 2 * pi else 4 * pi)
      in case py_div (2 * meff) (const_h cs) of
           Inl er \<Rightarrow> Inl er
         | Inr q1 \<Rightarrow>
             (case py_div q1 (const_h cs) of
                Inl er \<Rightarrow> Inl er
              | Inr q2 \<Rightarrow>
                  (case py_pow q2 (real d / 2) of
                     Inl er \<Rightarrow> Inl er
                   | Inr pw \<Rightarrow>
                       Inr (map (dos_elem cs (omega_D / (2 * pi) ^ d * pw) d) energy))))"

text \<open>
  The loops of \<^verbatim>\<open>BandStructure3D.dos\<close>: the subbands are visited in order and each
  contribution is added to the accumulator; the first exception ends the loop.
\<close>

fun dos_loop :: "(nat \<Rightarrow> error + real list) \<Rightarrow> nat list \<Rightarrow> real list \<Rightarrow> error + real list" where
  "dos_loop f [] acc = Inr acc"
| "dos_loop f (j # js) acc =
     (case f j of Inl er \<Rightarrow> Inl er | Inr d \<Rightarrow> dos_loop f js (map2 (+) acc d))"

text \<open>
  The bodies of the two loops. The electron body reads \<^verbatim>\<open>self.edges_c[j]\<close> and the
  mass \<^verbatim>\<open>self.mat.me\<close>; the hole body reads \<^verbatim>\<open>self.edges_v[j]\<close> and then indexes
  \<^verbatim>\<open>self.mat.mh[j]\<close>, which raises \<^verbatim>\<open>TypeError\<close> on a float and
  \<^verbatim>\<open>IndexError\<close> beyond the tuple. The quotient by \<^verbatim>\<open>const.e\<close> is a numpy
  division by a constant.
\<close>

definition dos_electron_body :: "constants \<Rightarrow> BandStructure \<Rightarrow> real list \<Rightarrow> nat \<Rightarrow> error + real list" where
  "dos_electron_body cs bs energy j =
     (case np_get (edges_c bs) (int j) of
        Inl er \<Rightarrow> Inl er
      | Inr ed \<Rightarrow>
          dos_single_subband cs (map (\<lambda>E. E - ed / const_e cs) energy) (me (mat bs)) (bs_dim bs))"

definition dos_hole_body :: "constants \<Rightarrow> BandStructure \<Rightarrow> real list \<Rightarrow> nat \<Rightarrow> error + real list" where
  "dos_hole_body cs bs energy j =
     (case np_get (edges_v bs) (int j) of
        Inl er \<Rightarrow> Inl er
      | Inr ed \<Rightarrow>
          (case mh (mat bs) of
             MScalar mm \<Rightarrow> Inl TypeError
           | MTuple t \<Rightarrow>
               (case np_get t (int j) of
                  Inl er \<Rightarrow> Inl er
                | Inr mm \<Rightarrow>
                    dos_single_subband cs (map (\<lambda>E. E + ed / const_e cs) energy) mm (bs_dim bs))))"

definition dos :: "constants \<Rightarrow> BandStructure \<Rightarrow> real list \<Rightarrow> string \<Rightarrow> error + real list" where
  "dos cs bs energy carriers =
     (if carriers = ''electrons''
      then dos_loop (dos_electron_body cs bs energy) [0..<n_sb_e bs] (replicate (length energy) 0)
      else dos_loop (dos_hole_body cs bs energy) [0..<n_sb_h bs] (replicate (length energy) 0))"

subsection \<open>Dipole matrix element of the bulk model\<close>

text \<open>
  \<^verbatim>\<open>BandStructure3D._dipole\<close>. The prefactor is a numpy square root of a Python float
  expression; the two band energies are computed after the product \<^verbatim>\<open>p * self.mat.Eg\<close>,
  the conduction band first; subtracting \<^verbatim>\<open>None\<close> raises \<^verbatim>\<open>TypeError\<close>; the
  last division is a numpy division.
\<close>

definition dipole_3D :: "constants \<Rightarrow> BandStructure \<Rightarrow> int \<Rightarrow> int \<Rightarrow> real \<Rightarrow> error + npf" where
  "dipole_3D cs bs j1 j2 k =
     (if j1 \<ge> int (n_sb_h bs) then Inl ValueError
      else if j2 \<ge> int (n_sb_e bs) then Inl ValueError
      else
        (case attr (e_P (mat bs)) of
           Inl er \<Rightarrow> Inl er
         | Inr ep \<Rightarrow>
             (case py_div (const_e cs * ep * const_h cs) (const_m0 cs) of
                Inl er \<Rightarrow> Inl er
              | Inr q \<Rightarrow>
                  (let p = np_sqrt (q * const_h cs / 2) in
                   case cond_band_3D cs bs j2 k of
                     Inl er \<Rightarrow> Inl er
                   | Inr None \<Rightarrow> Inl TypeError
                   | Inr (Some Ec) \<Rightarrow>
                       (case val_band_3D cs bs j1 k of
                          Inl er \<Rightarrow> Inl er
                        | Inr None \<Rightarrow> Inl TypeError
                        | Inr (Some Ev) \<Rightarrow>
                            Inr (npf_div (npf_mul p (Fin (Eg (mat bs)))) (Fin (Ec - Ev))))))))"


subsection \<open>Fermi levels\<close>

text \<open>
  The exponential of a numpy value, and the order numpy sorts and searches by: minus
  infinity, the finite values, plus infinity, and NaN last.
\<close>

fun npf_exp :: "npf \<Rightarrow> npf" where
  "npf_exp (Fin a) = Fin (exp a)"
| "npf_exp PInf = PInf"
| "npf_exp NInf = Fin 0"
| "npf_exp NaN = NaN"

fun npf_key :: "npf \<Rightarrow> nat \<times> real" where
  "npf_key NInf = (0, 0)"
| "npf_key (Fin a) = (1, a)"
| "npf_key PInf = (2, 0)"
| "npf_key NaN = (3, 0)"

text \<open>
  \<^verbatim>\<open>fd(energy, ef, tempr)\<close>, one array element:
  \<^verbatim>\<open>1.0 / (1.0 + np.exp((energy - ef) / (kb * tempr)))\<close> with \<^verbatim>\<open>kb = 8.61733e-5\<close>.
  Both divisions are numpy divisions. At \<^verbatim>\<open>tempr = 0\<close> the quotient is infinite or NaN
  and the occupation is the step function: 0 above \<^verbatim>\<open>ef\<close>, 1 below, NaN at \<^verbatim>\<open>ef\<close>.
\<close>

definition fd :: "real \<Rightarrow> real \<Rightarrow> real \<Rightarrow> npf" where
  "fd energy efl tempr =
     npf_div (Fin 1.0)
       (npf_add (Fin 1.0) (npf_exp (np_div (energy - efl) (8.61733 / 10 ^ 5 * tempr))))"

text \<open>
  Library functions of numpy and scipy, modelled from their documented behaviour.
  \<^verbatim>\<open>np.linspace(start, stop, num)\<close> multiplies the index by the step
  \<^verbatim>\<open>(stop - start) / (num - 1)\<close>, adds \<^verbatim>\<open>start\<close> and stores \<^verbatim>\<open>stop\<close> in the last
  place. \<^verbatim>\<open>np.trapz(y, x)\<close> sums \<^verbatim>\<open>diff(x) * (y[1:] + y[:-1]) / 2.0\<close>.
  \<^verbatim>\<open>np.min\<close> raises \<^verbatim>\<open>ValueError\<close> on an empty array.
\<close>

definition linspace :: "real \<Rightarrow> real \<Rightarrow> nat \<Rightarrow> real list" where
  "linspace start stop num =
     (if num = 0 then []
      else if num = 1 then [start]
      else map (\<lambda>i. real i * ((stop - start) / real (num - 1)) + start) [0..<num - 1] @ [stop])"

fun trapz :: "npf list \<Rightarrow> real list \<Rightarrow> npf" where
  "trapz (y1 # y2 # ys) (x1 # x2 # xs) =
     npf_add (npf_div (npf_mul (Fin (x2 - x1)) (npf_add y2 y1)) (Fin 2.0))
       (trapz (y2 # ys) (x2 # xs))"
| "trapz ys xs = Fin 0"

definition np_min :: "real list \<Rightarrow> error + real" where
  "np_min xs = (case xs of [] \<Rightarrow> Inl ValueError | x # r \<Rightarrow> Inr (fold min r x))"

text \<open>
  \<^verbatim>\<open>interp1d(x, y, fill_value="extrapolate")\<close> sorts the samples by abscissa with a
  stable sort. Calling the interpolant finds the insertion index of the new abscissa
  (\<^verbatim>\<open>searchsorted\<close>, on the left), clips it to \<^verbatim>\<open>1 .. len(x) - 1\<close>, and evaluates
  \<^verbatim>\<open>slope * (x_new - x_lo) + y_lo\<close> with
  \<^verbatim>\<open>slope = (y_hi - y_lo) / (x_hi - x_lo)\<close> for the two neighbouring samples; beyond
  the samples this is the extrapolation of the first or last segment.
\<close>

definition interp1d :: "npf list \<Rightarrow> real list \<Rightarrow> interp" where
  "interp1d x y =
     (let ps = sort_key (\<lambda>p. npf_key (fst p)) (zip x y)
      in \<lparr>ip_x = map fst ps, ip_y = map snd ps\<rparr>)"

definition searchsorted :: "npf list \<Rightarrow> real \<Rightarrow> nat" where
  "searchsorted xs v = length (filter (\<lambda>x. npf_key x < npf_key (Fin v)) xs)"

definition interp_call :: "interp \<Rightarrow> real \<Rightarrow> error + npf" where
  "interp_call f x_new =
     (let hi = min (int (length (ip_x f)) - 1) (max (int (searchsorted (ip_x f) x_new)) 1);
          lo = hi - 1
      in case np_get (ip_x f) lo of Inl er \<Rightarrow> Inl er | Inr x_lo \<Rightarrow>
         case np_get (ip_x f) hi of Inl er \<Rightarrow> Inl er | Inr x_hi \<Rightarrow>
         case np_get (ip_y f) lo of Inl er \<Rightarrow> Inl er | Inr y_lo \<Rightarrow>
         case np_get (ip_y f) hi of Inl er \<Rightarrow> Inl er | Inr y_hi \<Rightarrow>
           Inr (npf_add
                  (npf_mul (npf_div (Fin (y_hi - y_lo)) (npf_sub x_hi x_lo))
                     (npf_sub (Fin x_new) x_lo))
                  (Fin y_lo)))"

text \<open>
  One pass of the loops of \<^verbatim>\<open>get_Fermi_levels\<close>: for the candidate Fermi energy
  \<open>efl\<close>, the trapezoidal integral over \<^verbatim>\<open>energy * const.e\<close> of the Fermi-Dirac
  occupation times the density of states. \<^verbatim>\<open>self.dos\<close> is called in every pass.
\<close>

definition carrier_density ::
  "constants \<Rightarrow> BandStructure \<Rightarrow> real \<Rightarrow> string \<Rightarrow> real list \<Rightarrow> real \<Rightarrow> error + npf" where
  "carrier_density cs bs tempr carriers energy efl =
     (case dos cs bs energy carriers of
        Inl er \<Rightarrow> Inl er
      | Inr ds \<Rightarrow>
          Inr (trapz (map2 npf_mul (map (\<lambda>E. fd E efl tempr) energy) (map Fin ds))
                 (map (\<lambda>E. E * const_e cs) energy)))"

fun conc_loop :: "(real \<Rightarrow> error + 'a) \<Rightarrow> real list \<Rightarrow> error + 'a list" where
  "conc_loop f [] = Inr []"
| "conc_loop f (p # ps) =
     (case f p of
        Inl er \<Rightarrow> Inl er
      | Inr c \<Rightarrow> (case conc_loop f ps of Inl er \<Rightarrow> Inl er | Inr r \<Rightarrow> Inr (c # r)))"

definition fermi_interp ::
  "constants \<Rightarrow> BandStructure \<Rightarrow> real \<Rightarrow> string \<Rightarrow> real list \<Rightarrow> real list \<Rightarrow> error + interp" where
  "fermi_interp cs bs tempr carriers probe_fermi energy =
     (case conc_loop (carrier_density cs bs tempr carriers energy) probe_fermi of
        Inl er \<Rightarrow> Inl er
      | Inr conc \<Rightarrow> Inr (interp1d conc probe_fermi))"

text \<open>
  The body of \<^verbatim>\<open>if tempr not in self.ef\<close>. The cache entry is created empty before
  the electron table is integrated and is filled key by key, so an exception leaves the
  partly filled entry behind; the returned model is the state of the instance when the
  block ends or raises.
\<close>

definition fermi_cache_miss ::
  "constants \<Rightarrow> BandStructure \<Rightarrow> real \<Rightarrow> (error + unit) \<times> BandStructure" where
  "fermi_cache_miss cs bs tempr =
     (case np_min (edges_c bs) of
        Inl er \<Rightarrow> (Inl er, bs)
      | Inr mc \<Rightarrow>
     (case np_min (map uminus (edges_v bs)) of
        Inl er \<Rightarrow> (Inl er, bs)
      | Inr mv \<Rightarrow>
     (let cbb = mc / const_e cs;
          vbt = mv / const_e cs;
          bs1 = bs\<lparr>ef := (ef bs)(tempr \<mapsto> \<lparr>elec = None, holes = None\<rparr>)\<rparr>
      in case fermi_interp cs bs1 tempr ''electrons''
                (linspace (Eg (mat bs) / const_e cs * 0.5) (cbb + 1.5) 50)
                (linspace (cbb - 0.5) (cbb + 5) 3000) of
           Inl er \<Rightarrow> (Inl er, bs1)
         | Inr fe \<Rightarrow>
     (let bs2 = bs\<lparr>ef := (ef bs)(tempr \<mapsto> \<lparr>elec = Some fe, holes = None\<rparr>)\<rparr>
      in case fermi_interp cs bs2 tempr ''holes''
                (linspace (- Eg (mat bs) / const_e cs * 0.5) (vbt + 1.0) 550)
                (linspace vbt (vbt + 10) 350) of
           Inl er \<Rightarrow> (Inl er, bs2)
         | Inr fh \<Rightarrow>
             (Inr (), bs\<lparr>ef := (ef bs)(tempr \<mapsto> \<lparr>elec = Some fe, holes = Some fh\<rparr>)\<rparr>)))))"

text \<open>
  The last three statements of \<^verbatim>\<open>get_Fermi_levels\<close>: both interpolants are read from
  the cache (a missing key raises \<^verbatim>\<open>KeyError\<close>) and called at the density; the pair
  returned is \<^verbatim>\<open>((-ef_h - min(-edges_v)) * e, (ef_el + min(edges_c)) * e)\<close>.
\<close>

definition fermi_lookup :: "constants \<Rightarrow> BandStructure \<Rightarrow> real \<Rightarrow> real \<Rightarrow> error + npf \<times> npf" where
  "fermi_lookup cs bs tempr dens =
     (case ef bs tempr of None \<Rightarrow> Inl KeyError | Some en \<Rightarrow>
      case holes en of None \<Rightarrow> Inl KeyError | Some fh \<Rightarrow>
      case interp_call fh dens of Inl er \<Rightarrow> Inl er | Inr ef_h \<Rightarrow>
      case elec en of None \<Rightarrow> Inl KeyError | Some fe \<Rightarrow>
      case interp_call fe dens of Inl er \<Rightarrow> Inl er | Inr ef_el \<Rightarrow>
      case np_min (map uminus (edges_v bs)) of Inl er \<Rightarrow> Inl er | Inr mv \<Rightarrow>
      case np_min (edges_c bs) of Inl er \<Rightarrow> Inl er | Inr mc \<Rightarrow>
        Inr (npf_mul (npf_sub (npf_neg ef_h) (Fin mv)) (Fin (const_e cs)),
             npf_mul (npf_add ef_el (Fin mc)) (Fin (const_e cs))))"

text \<open>
  \<^verbatim>\<open>BandStructure3D.get_Fermi_levels(tempr, dens)\<close>, inherited by the quantum-well
  class: the outcome together with the state of the instance afterwards.
\<close>

definition get_Fermi_levels ::
  "constants \<Rightarrow> BandStructure \<Rightarrow> real \<Rightarrow> real \<Rightarrow> (error + npf \<times> npf) \<times> BandStructure" where
  "get_Fermi_levels cs bs tempr dens =
     (case (if ef bs tempr = None then fermi_cache_miss cs bs tempr else (Inr (), bs)) of
        (Inl er, bs') \<Rightarrow> (Inl er, bs')
      | (Inr u, bs') \<Rightarrow> (fermi_lookup cs bs' tempr dens, bs'))"

text \<open>
  The default material of the constructors, \<^verbatim>\<open>GaAs()\<close>: temperature 0 and the Varshni
  formula, whose shift vanishes at 0 K.
\<close>

definition GaAs_default :: "constants \<Rightarrow> material" where
  "GaAs_default cs =
     \<lparr>Eg = 1.519 * const_e cs, me = 0.0665 * const_m0 cs,
      mh = MTuple [const_m0 cs / 2.86, const_m0 cs / 11.1, 0.172 * const_m0 cs],
      mhh = Some (const_m0 cs / 2.86), mlh = Some (const_m0 cs / 11.1),
      mso = Some (0.172 * const_m0 cs), e_P = Some 28.8\<rparr>"

text \<open>
  An instance of the constants with SI values (charge in C, reduced Planck constant in
  J s, mass in kg, Boltzmann constant in J/K), for the concrete examples.
\<close>

definition si_constants :: constants where
  "si_constants =
     \<lparr>const_e = 1.602176634 / 10 ^ 19, const_h = 1.054571817 / 10 ^ 34,
      const_m0 = 9.1093837015 / 10 ^ 31, const_kb = 1.380649 / 10 ^ 23\<rparr>"


subsection \<open>Well-formed inputs\<close>

text \<open>
  The scalar prefactor of \<^verbatim>\<open>_dos_single_subband\<close> for a positive mass:
  \<^verbatim>\<open>omega_D / (2 * pi) ** dim * (2 * meff / h / h) ** (dim / 2)\<close>.
\<close>

definition dos_prefactor :: "constants \<Rightarrow> real \<Rightarrow> nat \<Rightarrow> real" where
  "dos_prefactor cs meff d =
     (if d = 1 then 2 else if d = 2 then 2 * pi else 4 * pi) / (2 * pi) ^ d *
     (2 * meff / const_h cs / const_h cs) powr (real d / 2)"

text \<open>
  A material descriptor in the sense of class \<^verbatim>\<open>GaAs\<close>: a positive electron mass,
  three positive valence masses collected in the tuple \<^verbatim>\<open>mh\<close>, and a Kane energy.
\<close>

definition material_ok :: "material \<Rightarrow> bool" where
  "material_ok m =
     (0 < me m \<and>
      (case (mhh m, mlh m, mso m, e_P m) of
         (Some a, Some b, Some c, Some p) \<Rightarrow>
           0 < a \<and> 0 < b \<and> 0 < c \<and> 0 \<le> p \<and> mh m = MTuple [a, b, c]
       | _ \<Rightarrow> False))"

text \<open>
  The invariant the constructors establish and no method changes: the subband counts are
  the lengths of the edge arrays.
\<close>

definition model_ok :: "BandStructure \<Rightarrow> bool" where
  "model_ok bs = (n_sb_e bs = length (edges_c bs) \<and> n_sb_h bs = length (edges_v bs))"

text \<open>
  The quantities the Fermi-level tables are described by: the density of states of all
  conduction subbands and of all valence subbands at one energy, the trapezoidal rule, the
  density integral for one candidate Fermi energy (the Fermi-Dirac occupation
  \<open>1 / (1 + exp ((E - Ef) / (kB T)))\<close> times a density of states, over the energies
  times \<^verbatim>\<open>const.e\<close>), a grid of \<open>n\<close> evenly spaced points from \<open>a\<close> to \<open>b\<close>, and the
  interpolant from integrated density to candidate Fermi energy.
\<close>

definition electron_dos :: "constants \<Rightarrow> BandStructure \<Rightarrow> real \<Rightarrow> real" where
  "electron_dos cs bs E =
     (\<Sum>j<n_sb_e bs. dos_elem cs (dos_prefactor cs (me (mat bs)) (bs_dim bs)) (bs_dim bs)
                       (E - edges_c bs ! j / const_e cs))"

definition hole_dos :: "constants \<Rightarrow> BandStructure \<Rightarrow> real list \<Rightarrow> real \<Rightarrow> real" where
  "hole_dos cs bs t E =
     (\<Sum>j<n_sb_h bs. dos_elem cs (dos_prefactor cs (t ! j) (bs_dim bs)) (bs_dim bs)
                       (E + edges_v bs ! j / const_e cs))"

definition trapezoid_sum :: "real list \<Rightarrow> real list \<Rightarrow> real" where
  "trapezoid_sum ys xs =
     (\<Sum>i<length xs - 1. (xs ! Suc i - xs ! i) * (ys ! Suc i + ys ! i) / 2)"

definition density_integral ::
  "constants \<Rightarrow> real \<Rightarrow> (real \<Rightarrow> real) \<Rightarrow> real list \<Rightarrow> real \<Rightarrow> real" where
  "density_integral cs tempr g energy efl =
     trapezoid_sum
       (map (\<lambda>E. 1 / (1 + exp ((E - efl) / (8.61733 / 10 ^ 5 * tempr))) * g E) energy)
       (map (\<lambda>E. E * const_e cs) energy)"

definition evenly_spaced :: "real \<Rightarrow> real \<Rightarrow> nat \<Rightarrow> real list" where
  "evenly_spaced a b n = map (\<lambda>i. a + real i * ((b - a) / real (n - 1))) [0..<n]"

definition fermi_table ::
  "constants \<Rightarrow> real \<Rightarrow> (real \<Rightarrow> real) \<Rightarrow> real list \<Rightarrow> real list \<Rightarrow> interp" where
  "fermi_table cs tempr g probe energy =
     interp1d (map (\<lambda>efl. Fin (density_integral cs tempr g energy efl)) probe) probe"

text \<open>The two interpolants of a model at one temperature, as the claim describes them.\<close>

definition electron_table :: "constants \<Rightarrow> BandStructure \<Rightarrow> real \<Rightarrow> interp" where
  "electron_table cs bs tempr =
     (let cbb = Min (set (edges_c bs)) / const_e cs
      in fermi_table cs tempr (electron_dos cs bs)
           (evenly_spaced (Eg (mat bs) / const_e cs * 0.5) (cbb + 1.5) 50)
           (evenly_spaced (cbb - 0.5) (cbb + 5) 3000))"

definition hole_table :: "constants \<Rightarrow> BandStructure \<Rightarrow> real list \<Rightarrow> real \<Rightarrow> interp" where
  "hole_table cs bs t tempr =
     (let vbt = Min (set (map uminus (edges_v bs))) / const_e cs
      in fermi_table cs tempr (hole_dos cs bs t)
           (evenly_spaced (- Eg (mat bs) / const_e cs * 0.5) (vbt + 1.0) 550)
           (evenly_spaced vbt (vbt + 10) 350))"



section \<open>Properties\<close>

lemma np_get_nat: "i < length xs \<Longrightarrow> np_get xs (int i) = Inr (xs ! i)"
  by (simp add: np_get_def)

lemma GaAs_default: "GaAs cs 0 ''varshni'' = Inr (GaAs_default cs)"
  by (simp add: GaAs_def GaAs_Eg_def GaAs_default_def py_div_def Let_def)

lemma si_constants_ok: "consts_ok si_constants"
  by (simp add: consts_ok_def si_constants_def)

subsection \<open>Index checks of the valence band\<close>

text \<open>
  C2. For a quantum-well model, \<^verbatim>\<open>_val_band(j, k)\<close> raises the band-index error
  exactly when \<open>j\<close> reaches the number of conduction edges \<^verbatim>\<open>n_sb_e\<close>, not the number
  of valence edges: with one conduction edge and two valence edges (the constructor's
  defaults) the valid valence index 1 is rejected, whatever the material and \<open>k\<close>. The
  bulk method compares with \<^verbatim>\<open>n_sb_h\<close> and accepts the same index.
\<close>

theorem val_band_QW_checks_conduction_count:
  "(val_band_QW cs bs j k = Inl ValueError) = (j \<ge> int (n_sb_e bs)) \<and>
   n_sb_h (BandStructureQW_init m [0] [0, 0]) = 2 \<and>
   val_band_QW cs (BandStructureQW_init m [0] [0, 0]) 1 k = Inl ValueError \<and>
   val_band_3D cs (BandStructure3D_init m [0] [0, 0]) 1 k \<noteq> Inl ValueError"
  by (auto simp add: val_band_QW_def val_band_3D_def BandStructureQW_init_def
      BandStructure3D_init_def py_div_def np_get_def parabola_def attr_def Let_def
      split: sum.splits mass.splits option.splits if_splits)

text \<open>
  C6 (as stated, refuted). In the bulk model with four valence edges, index 3 is below
  the number of valence edges and above 2; \<^verbatim>\<open>_val_band\<close> raises nothing and returns
  \<^verbatim>\<open>None\<close>.
\<close>

theorem val_band_3D_index3_no_error:
  "\<not> isl (val_band_3D si_constants
          (BandStructure3D_init (GaAs_default si_constants) [0] [0, 0, 0, 0]) 3 0) \<and>
   val_band_3D si_constants
     (BandStructure3D_init (GaAs_default si_constants) [0] [0, 0, 0, 0]) 3 0 = Inr None"
  by (simp add: val_band_3D_def BandStructure3D_init_def)

text \<open>
  C6 (amended). For every bulk model, every \<open>k\<close> and every index \<open>j\<close> with
  \<open>2 < j < n_sb_h\<close>, \<^verbatim>\<open>_val_band(j, k)\<close> returns the undefined value \<^verbatim>\<open>None\<close> and
  raises no error.
\<close>

theorem val_band_3D_above_2_is_None:
  "2 < j \<Longrightarrow> j < int (n_sb_h bs) \<Longrightarrow> val_band_3D cs bs j k = Inr None"
  by (simp add: val_band_3D_def)

theorem val_band_3D_above_2_is_None_witness:
  "val_band_3D si_constants
     (BandStructure3D_init (GaAs_default si_constants) [0] [0, 0, 0, 0, 0]) 4 1 = Inr None"
  using val_band_3D_above_2_is_None
    [of 4 "BandStructure3D_init (GaAs_default si_constants) [0] [0, 0, 0, 0, 0]" si_constants 1]
  by (simp add: BandStructure3D_init_def)

subsection \<open>Band edges at construction\<close>

text \<open>
  C7. The constructor adds the material's gap to every conduction edge. For a bulk model
  built with the single conduction edge 0 and the single valence edge 0, over a material
  whose electron and heavy-hole masses are not zero, \<^verbatim>\<open>_cond_band(0, 0)\<close> is the
  material's gap and \<^verbatim>\<open>_val_band(0, 0)\<close> is 0.
\<close>

theorem conduction_edges_offset_by_gap:
  assumes "me m \<noteq> 0" and "mhh m = Some mv" and "mv \<noteq> 0"
  shows "edges_c (BandStructure3D_init m ec ev) = map (\<lambda>x. x + Eg m) ec \<and>
         cond_band_3D cs (BandStructure3D_init m [0] [0]) 0 0 = Inr (Some (Eg m)) \<and>
         val_band_3D cs (BandStructure3D_init m [0] [0]) 0 0 = Inr (Some 0)"
  using assms
  by (simp add: BandStructure3D_init_def cond_band_3D_def val_band_3D_def parabola_def
      np_get_def attr_def py_div_def)

theorem conduction_edges_offset_by_gap_witness:
  "edges_c (BandStructure3D_init (GaAs_default si_constants) [0, 1] [0]) =
     [Eg (GaAs_default si_constants), 1 + Eg (GaAs_default si_constants)] \<and>
   cond_band_3D si_constants (BandStructure3D_init (GaAs_default si_constants) [0] [0]) 0 0 =
     Inr (Some (Eg (GaAs_default si_constants))) \<and>
   val_band_3D si_constants (BandStructure3D_init (GaAs_default si_constants) [0] [0]) 0 0 =
     Inr (Some 0)"
  using conduction_edges_offset_by_gap
    [of "GaAs_default si_constants" "const_m0 si_constants / 2.86" "[0, 1]" "[0]" si_constants]
  by (simp add: GaAs_default_def si_constants_def)

subsection \<open>The density-of-states kernel\<close>

lemma dos_prefactor_pos: "0 < meff \<Longrightarrow> const_h cs \<noteq> 0 \<Longrightarrow> 0 < dos_prefactor cs meff d"
  by (auto simp add: dos_prefactor_def divide_simps zero_less_mult_iff)

lemma dos_single_subband_ok:
  assumes "0 < meff" "const_h cs \<noteq> 0"
  shows "dos_single_subband cs energy meff d =
    Inr (map (dos_elem cs (dos_prefactor cs meff d) d) energy)"
proof -
  have "0 < 2 * meff / const_h cs / const_h cs"
    using assms by (auto simp add: divide_simps zero_less_mult_iff)
  then show ?thesis using assms
    by (simp add: dos_single_subband_def py_div_def py_pow_def Let_def dos_prefactor_def)
qed

lemma dos_elem_neg: "0 < P \<Longrightarrow> E < 0 \<Longrightarrow> dos_elem cs P d E = 0"
  by (auto simp add: dos_elem_def np_pow_def inf_signed_def)

lemma dos_elem_0_1: "0 < P \<Longrightarrow> dos_elem cs P 1 0 = float_max"
  by (simp add: dos_elem_def np_pow_def inf_signed_def)

lemma dos_elem_0_2: "dos_elem cs P 2 0 = P / 2"
  by (simp add: dos_elem_def np_pow_def inf_signed_def)

lemma dos_elem_0_3: "dos_elem cs P 3 0 = 0"
  by (simp add: dos_elem_def np_pow_def inf_signed_def)

lemma dos_prefactor_2:
  "const_h cs \<noteq> 0 \<Longrightarrow> 0 < meff \<Longrightarrow>
   dos_prefactor cs meff 2 / 2 = meff / (2 * pi * (const_h cs)\<^sup>2)"
  by (simp add: dos_prefactor_def power2_eq_square divide_simps)

text \<open>
  C5. For every dimension \<open>d\<close> in 1, 2, 3, every effective mass \<open>meff > 0\<close> (and a nonzero
  Planck constant) and every energy array, \<^verbatim>\<open>_dos_single_subband\<close> returns an array
  of the same length whose entry is exactly 0 wherever the energy is strictly negative,
  and a finite number wherever the energy is exactly 0: the largest double for \<open>d = 1\<close>
  (the infinity of the power term, floored by \<^verbatim>\<open>nan_to_num\<close>),
  \<open>meff / (2 pi h\<^sup>2)\<close> for \<open>d = 2\<close>, and 0 for \<open>d = 3\<close>.
\<close>

theorem dos_kernel_below_and_at_edge:
  assumes "d = 1 \<or> d = 2 \<or> d = 3" and "0 < meff" and "const_h cs \<noteq> 0"
  shows "\<exists>r. dos_single_subband cs energy meff d = Inr r \<and> length r = length energy \<and>
     (\<forall>i<length energy.
        (energy ! i < 0 \<longrightarrow> r ! i = 0) \<and>
        (energy ! i = 0 \<longrightarrow>
           r ! i = (if d = 1 then float_max
                    else if d = 2 then meff / (2 * pi * (const_h cs)\<^sup>2) else 0)))"
proof -
  let ?P = "dos_prefactor cs meff d"
  have P: "0 < ?P" using assms by (simp add: dos_prefactor_pos)
  have r: "dos_single_subband cs energy meff d = Inr (map (dos_elem cs ?P d) energy)"
    using assms by (simp add: dos_single_subband_ok)
  have z: "dos_elem cs ?P d 0 =
      (if d = 1 then float_max else if d = 2 then meff / (2 * pi * (const_h cs)\<^sup>2) else 0)"
    using assms(1)
  proof (elim disjE)
    assume "d = 1" then show ?thesis using P dos_elem_0_1 [of ?P cs] by simp
  next
    assume "d = 2" then show ?thesis using assms by (simp add: dos_elem_0_2 dos_prefactor_2)
  next
    assume "d = 3" then show ?thesis by (simp add: dos_elem_0_3)
  qed
  show ?thesis
    unfolding r using P z by (simp add: dos_elem_neg)
qed

theorem dos_kernel_below_and_at_edge_witness:
  "dos_single_subband si_constants [- 1, 0] 1 2 =
     Inr [0, 1 / (2 * pi * (const_h si_constants)\<^sup>2)]"
proof -
  have h: "const_h si_constants \<noteq> 0" by (simp add: si_constants_def)
  obtain r where r: "dos_single_subband si_constants [- 1, 0] 1 2 = Inr r"
     and l: "length r = length [- 1, 0 :: real]"
     and p: "\<forall>i<length [- 1, 0 :: real].
        ([- 1, 0 :: real] ! i < 0 \<longrightarrow> r ! i = 0) \<and>
        ([- 1, 0 :: real] ! i = 0 \<longrightarrow>
           r ! i = (if (2::nat) = 1 then float_max
                    else if (2::nat) = 2 then 1 / (2 * pi * (const_h si_constants)\<^sup>2) else 0))"
    using dos_kernel_below_and_at_edge [of 2 1 si_constants "[- 1, 0]"] h by auto
  from p have "r ! 0 = 0" by auto
  moreover from p have "r ! 1 = 1 / (2 * pi * (const_h si_constants)\<^sup>2)" by auto
  ultimately have "r = [0, 1 / (2 * pi * (const_h si_constants)\<^sup>2)]"
    using l by (auto simp add: list_eq_iff_nth_eq less_Suc_eq)
  with r show ?thesis by simp
qed

subsection \<open>Density of states of a model\<close>

lemma map2_add_replicate_0: "length xs = n \<Longrightarrow> map2 (+) (replicate n (0::real)) xs = xs"
  by (simp add: list_eq_iff_nth_eq)

lemma dos_loop_sum:
  assumes "\<forall>j\<in>set js. f j = Inr (map (g j) energy)" and "length acc = length energy"
  shows "dos_loop f js acc =
     Inr (map2 (+) acc (map (\<lambda>E. sum_list (map (\<lambda>j. g j E) js)) energy))"
  using assms
proof (induction js arbitrary: acc)
  case Nil
  then show ?case by (simp add: list_eq_iff_nth_eq)
next
  case (Cons j js)
  have "dos_loop f (j # js) acc = dos_loop f js (map2 (+) acc (map (g j) energy))"
    using Cons.prems by simp
  also have "\<dots> = Inr (map2 (+) (map2 (+) acc (map (g j) energy))
                  (map (\<lambda>E. sum_list (map (\<lambda>j. g j E) js)) energy))"
    using Cons.prems by (intro Cons.IH) simp_all
  also have "map2 (+) (map2 (+) acc (map (g j) energy))
                  (map (\<lambda>E. sum_list (map (\<lambda>j. g j E) js)) energy) =
             map2 (+) acc (map (\<lambda>E. sum_list (map (\<lambda>j. g j E) (j # js))) energy)"
    using Cons.prems(2) by (simp add: list_eq_iff_nth_eq add.assoc)
  finally show ?case .
qed

lemma dos_loop_upto:
  assumes "\<forall>j<n. f j = Inr (map (g j) energy)"
  shows "dos_loop f [0..<n] (replicate (length energy) 0) =
     Inr (map (\<lambda>E. \<Sum>j<n. g j E) energy)"
proof -
  have "dos_loop f [0..<n] (replicate (length energy) 0) =
     Inr (map2 (+) (replicate (length energy) 0)
            (map (\<lambda>E. sum_list (map (\<lambda>j. g j E) [0..<n])) energy))"
    using assms by (intro dos_loop_sum) simp_all
  also have "(\<lambda>E. sum_list (map (\<lambda>j. g j E) [0..<n])) = (\<lambda>E. \<Sum>j<n. g j E)"
    by (simp add: interv_sum_list_conv_sum_set_nat atLeast0LessThan)
  finally show ?thesis by (simp add: map2_add_replicate_0)
qed

lemma dos_hole_body_ok:
  assumes "j < length (edges_v bs)" and "mh (mat bs) = MTuple t" and "j < length t"
    and "0 < t ! j" and "const_h cs \<noteq> 0"
  shows "dos_hole_body cs bs energy j =
     Inr (map (\<lambda>E. dos_elem cs (dos_prefactor cs (t ! j) (bs_dim bs)) (bs_dim bs)
                    (E + edges_v bs ! j / const_e cs)) energy)"
  using assms by (simp add: dos_hole_body_def np_get_nat dos_single_subband_ok comp_def)

lemma dos_electron_body_ok:
  assumes "j < length (edges_c bs)" and "0 < me (mat bs)" and "const_h cs \<noteq> 0"
  shows "dos_electron_body cs bs energy j =
     Inr (map (\<lambda>E. dos_elem cs (dos_prefactor cs (me (mat bs)) (bs_dim bs)) (bs_dim bs)
                    (E - edges_c bs ! j / const_e cs)) energy)"
  using assms by (simp add: dos_electron_body_def np_get_nat dos_single_subband_ok comp_def)

lemma dos_electrons_ok:
  assumes "n_sb_e bs \<le> length (edges_c bs)" and "0 < me (mat bs)" and "const_h cs \<noteq> 0"
  shows "dos cs bs energy ''electrons'' =
     Inr (map (\<lambda>E. \<Sum>j<n_sb_e bs.
            dos_elem cs (dos_prefactor cs (me (mat bs)) (bs_dim bs)) (bs_dim bs)
              (E - edges_c bs ! j / const_e cs)) energy)"
  unfolding dos_def using assms
  by (simp add: dos_loop_upto dos_electron_body_ok)

lemma dos_holes_ok:
  assumes "carriers \<noteq> ''electrons''"
    and "n_sb_h bs \<le> length (edges_v bs)" and "mh (mat bs) = MTuple t"
    and "n_sb_h bs \<le> length t" and "\<forall>j<n_sb_h bs. 0 < t ! j" and "const_h cs \<noteq> 0"
  shows "dos cs bs energy carriers =
     Inr (map (\<lambda>E. \<Sum>j<n_sb_h bs.
            dos_elem cs (dos_prefactor cs (t ! j) (bs_dim bs)) (bs_dim bs)
              (E + edges_v bs ! j / const_e cs)) energy)"
  unfolding dos_def using assms
  by (simp add: dos_loop_upto dos_hole_body_ok)

text \<open>
  C9. For every model and energy array, \<^verbatim>\<open>dos\<close> called with a carrier selector other
  than \<^verbatim>\<open>"electrons"\<close> runs the hole loop: the outcome is that of the selector
  \<^verbatim>\<open>"holes"\<close>, and no selector is rejected. Where the hole loop itself meets no
  error (the valence mass tuple covers the valence subbands, the masses are positive and
  Planck's constant is not zero) the value is, at each energy, the sum over all valence
  subbands of the kernel taken with the subband's own mass.
\<close>

theorem dos_other_selector_is_holes:
  assumes "carriers \<noteq> ''electrons''"
    and "n_sb_h bs \<le> length (edges_v bs)" and "mh (mat bs) = MTuple t"
    and "n_sb_h bs \<le> length t" and "\<forall>j<n_sb_h bs. 0 < t ! j" and "const_h cs \<noteq> 0"
  shows "dos cs bs energy carriers = dos cs bs energy ''holes'' \<and>
     dos cs bs energy carriers =
       Inr (map (\<lambda>E. \<Sum>j<n_sb_h bs.
              dos_elem cs (dos_prefactor cs (t ! j) (bs_dim bs)) (bs_dim bs)
                (E + edges_v bs ! j / const_e cs)) energy)"
  using assms dos_holes_ok [of carriers bs t cs energy] by (simp add: dos_def)

theorem dos_other_selector_is_holes_witness:
  "dos si_constants (BandStructure3D_init (GaAs_default si_constants) [0] [0, 0]) [1] ''protons'' =
   dos si_constants (BandStructure3D_init (GaAs_default si_constants) [0] [0, 0]) [1] ''holes'' \<and>
   (\<exists>v. dos si_constants (BandStructure3D_init (GaAs_default si_constants) [0] [0, 0]) [1]
       ''protons'' = Inr [v])"
proof -
  let ?bs = "BandStructure3D_init (GaAs_default si_constants) [0] [0, 0]"
  let ?t = "[const_m0 si_constants / 2.86, const_m0 si_constants / 11.1,
             0.172 * const_m0 si_constants]"
  have a: "''protons'' \<noteq> ''electrons''" by simp
  have b: "n_sb_h ?bs \<le> length (edges_v ?bs)" by (simp add: BandStructure3D_init_def)
  have c: "mh (mat ?bs) = MTuple ?t" by (simp add: BandStructure3D_init_def GaAs_default_def)
  have d: "n_sb_h ?bs \<le> length ?t" by (simp add: BandStructure3D_init_def)
  have e: "\<forall>j<n_sb_h ?bs. 0 < ?t ! j"
    by (simp add: BandStructure3D_init_def si_constants_def less_Suc_eq numeral_2_eq_2)
  have f: "const_h si_constants \<noteq> 0" by (simp add: si_constants_def)
  note th = dos_other_selector_is_holes [OF a b c d e f, of "[1]", unfolded list.map]
  show ?thesis
    by (rule conjI, rule th [THEN conjunct1], rule exI, rule th [THEN conjunct2])
qed

subsection \<open>Dipole matrix element\<close>

lemma GaAs_material_ok:
  assumes "consts_ok cs" and "GaAs cs tempr tempr_dep = Inr m"
  shows "material_ok m"
  using assms
  by (auto simp add: GaAs_def Let_def material_ok_def consts_ok_def split: sum.splits)

lemma GaAs_default_ok: "consts_ok cs \<Longrightarrow> material_ok (GaAs_default cs)"
  using GaAs_material_ok [OF _ GaAs_default] .

lemma cond_band_3D_ok:
  assumes "0 \<le> j" and "j < int (n_sb_e bs)" and "n_sb_e bs = length (edges_c bs)"
    and "me (mat bs) \<noteq> 0"
  shows "cond_band_3D cs bs j k =
     Inr (Some (edges_c bs ! nat j + (const_h cs)\<^sup>2 * k\<^sup>2 / (2 * me (mat bs))))"
  using assms by (simp add: cond_band_3D_def parabola_def np_get_def attr_def py_div_def)

lemma val_band_3D_ok:
  assumes "0 \<le> j" and "j \<le> 2" and "j < int (n_sb_h bs)" and "n_sb_h bs = length (edges_v bs)"
    and "material_ok (mat bs)"
  shows "\<exists>mv. 0 < mv \<and> val_band_3D cs bs j k =
     Inr (Some (edges_v bs ! nat j - (const_h cs)\<^sup>2 * k\<^sup>2 / (2 * mv)))"
proof -
  from assms(5) obtain a b c where
    m: "mhh (mat bs) = Some a" "mlh (mat bs) = Some b" "mso (mat bs) = Some c"
    and pos: "0 < a" "0 < b" "0 < c"
    by (auto simp add: material_ok_def split: option.splits)
  from assms(1,2) consider "j = 0" | "j = 1" | "j = 2" by linarith
  then show ?thesis
  proof cases
    case 1
    then show ?thesis using assms m pos
      by (intro exI [of _ a]) (simp add: val_band_3D_def parabola_def np_get_def attr_def py_div_def)
  next
    case 2
    then show ?thesis using assms m pos
      by (intro exI [of _ b]) (simp add: val_band_3D_def parabola_def np_get_def attr_def py_div_def)
  next
    case 3
    then show ?thesis using assms m pos
      by (intro exI [of _ c]) (simp add: val_band_3D_def parabola_def np_get_def attr_def py_div_def)
  qed
qed

lemma dipole_3D_value:
  assumes "consts_ok cs" and "e_P (mat bs) = Some ep" and "0 \<le> ep"
    and "j1 < int (n_sb_h bs)" and "j2 < int (n_sb_e bs)"
    and "cond_band_3D cs bs j2 k = Inr (Some Ec)" and "val_band_3D cs bs j1 k = Inr (Some Ev)"
  shows "dipole_3D cs bs j1 j2 k =
     Inr (np_div (sqrt (const_e cs * ep * (const_h cs)\<^sup>2 / (2 * const_m0 cs)) * Eg (mat bs))
            (Ec - Ev))"
proof -
  have nn: "\<not> const_e cs * ep * const_h cs / const_m0 cs * const_h cs / 2 < 0"
    using assms(1,3) by (simp add: consts_ok_def not_less)
  have eq: "const_e cs * ep * const_h cs / const_m0 cs * const_h cs / 2 =
            const_e cs * ep * (const_h cs)\<^sup>2 / (2 * const_m0 cs)"
    by (simp add: power2_eq_square)
  have "dipole_3D cs bs j1 j2 k =
     Inr (np_div (sqrt (const_e cs * ep * const_h cs / const_m0 cs * const_h cs / 2) *
                  Eg (mat bs)) (Ec - Ev))"
    using assms nn
    by (simp add: dipole_3D_def attr_def py_div_def consts_ok_def np_sqrt_def)
  then show ?thesis by (simp only: eq)
qed

text \<open>
  C8 (as stated, refuted). In a bulk model with four valence edges the valence index 3 is
  in range, \<^verbatim>\<open>_val_band\<close> returns \<^verbatim>\<open>None\<close> for it, and \<^verbatim>\<open>_dipole\<close> raises
  \<^verbatim>\<open>TypeError\<close> on the subtraction instead of returning the quotient.
\<close>

theorem dipole_3D_valence_index_3:
  "dipole_3D si_constants
     (BandStructure3D_init (GaAs_default si_constants) [0] [0, 0, 0, 0]) 3 0 0 = Inl TypeError"
  by (simp add: dipole_3D_def BandStructure3D_init_def GaAs_default_def si_constants_def attr_def
      py_div_def cond_band_3D_def val_band_3D_def parabola_def np_get_def)

text \<open>
  C8 (amended). For positive constants and a material with positive masses and Kane
  energy \<open>ep\<close>: in every bulk model over it, for a valence index in 0, 1, 2 below the number
  of valence edges and a conduction index in range, \<^verbatim>\<open>_dipole\<close> returns the numpy
  quotient of \<open>p * gap\<close> by \<open>E_c(k) - E_v(k)\<close> with \<open>p = sqrt (e e_P h\<^sup>2 / (2 m0))\<close>, which is
  the real quotient whenever the two band energies differ. For the conduction edges
  \<open>[0, 0.3 e]\<close> and valence edges \<open>[0, - 0.1 e]\<close> and a nonzero gap,
  \<^verbatim>\<open>_dipole(0, 0, 0)\<close> is \<open>sqrt (e e_P h / m0 h / 2)\<close>.
\<close>

theorem dipole_3D_formula:
  assumes "consts_ok cs" and "material_ok m" and "e_P m = Some ep"
  shows "(\<forall>bs j1 j2 k.
            mat bs = m \<and> model_ok bs \<and> 0 \<le> j1 \<and> j1 \<le> 2 \<and> j1 < int (n_sb_h bs) \<and>
            0 \<le> j2 \<and> j2 < int (n_sb_e bs) \<longrightarrow>
            (\<exists>Ec Ev. cond_band_3D cs bs j2 k = Inr (Some Ec) \<and>
               val_band_3D cs bs j1 k = Inr (Some Ev) \<and>
               dipole_3D cs bs j1 j2 k =
                 Inr (np_div
                        (sqrt (const_e cs * ep * (const_h cs)\<^sup>2 / (2 * const_m0 cs)) * Eg m)
                        (Ec - Ev)) \<and>
               (Ec \<noteq> Ev \<longrightarrow>
                  dipole_3D cs bs j1 j2 k =
                    Inr (Fin (sqrt (const_e cs * ep * (const_h cs)\<^sup>2 / (2 * const_m0 cs)) *
                              Eg m / (Ec - Ev)))))) \<and>
         (Eg m \<noteq> 0 \<longrightarrow>
            dipole_3D cs (BandStructure3D_init m [0, 0.3 * const_e cs] [0, - 0.1 * const_e cs])
              0 0 0 =
            Inr (Fin (sqrt (const_e cs * ep * const_h cs / const_m0 cs * const_h cs / 2))))"
proof (intro conjI allI impI)
  fix bs j1 j2 k
  assume h: "mat bs = m \<and> model_ok bs \<and> 0 \<le> j1 \<and> j1 \<le> 2 \<and> j1 < int (n_sb_h bs) \<and>
            0 \<le> j2 \<and> j2 < int (n_sb_e bs)"
  have ep: "0 \<le> ep" and me: "me m \<noteq> 0"
    using assms(2,3) by (auto simp add: material_ok_def split: option.splits)
  from h me have c: "cond_band_3D cs bs j2 k =
      Inr (Some (edges_c bs ! nat j2 + (const_h cs)\<^sup>2 * k\<^sup>2 / (2 * me (mat bs))))"
    by (intro cond_band_3D_ok) (simp_all add: model_ok_def)
  from h assms(2) obtain mv where v: "val_band_3D cs bs j1 k =
      Inr (Some (edges_v bs ! nat j1 - (const_h cs)\<^sup>2 * k\<^sup>2 / (2 * mv)))"
    using val_band_3D_ok [of j1 bs cs k] by (auto simp add: model_ok_def)
  have d: "dipole_3D cs bs j1 j2 k =
     Inr (np_div (sqrt (const_e cs * ep * (const_h cs)\<^sup>2 / (2 * const_m0 cs)) * Eg (mat bs))
            ((edges_c bs ! nat j2 + (const_h cs)\<^sup>2 * k\<^sup>2 / (2 * me (mat bs))) -
             (edges_v bs ! nat j1 - (const_h cs)\<^sup>2 * k\<^sup>2 / (2 * mv))))"
    using assms(1) _ ep _ _ c v by (rule dipole_3D_value) (use h assms(3) in simp_all)
  show "\<exists>Ec Ev. cond_band_3D cs bs j2 k = Inr (Some Ec) \<and>
               val_band_3D cs bs j1 k = Inr (Some Ev) \<and>
               dipole_3D cs bs j1 j2 k =
                 Inr (np_div
                        (sqrt (const_e cs * ep * (const_h cs)\<^sup>2 / (2 * const_m0 cs)) * Eg m)
                        (Ec - Ev)) \<and>
               (Ec \<noteq> Ev \<longrightarrow>
                  dipole_3D cs bs j1 j2 k =
                    Inr (Fin (sqrt (const_e cs * ep * (const_h cs)\<^sup>2 / (2 * const_m0 cs)) *
                              Eg m / (Ec - Ev))))"
    using c v d h by (auto simp add: np_div_def)
next
  assume g: "Eg m \<noteq> 0"
  let ?bs = "BandStructure3D_init m [0, 0.3 * const_e cs] [0, - 0.1 * const_e cs]"
  have ep: "0 \<le> ep" and me: "me m \<noteq> 0"
    using assms(2,3) by (auto simp add: material_ok_def split: option.splits)
  have c: "cond_band_3D cs ?bs 0 0 = Inr (Some (Eg m))"
    using me by (simp add: cond_band_3D_def parabola_def np_get_def attr_def py_div_def
        BandStructure3D_init_def)
  obtain a where a: "mhh m = Some a" "0 < a"
    using assms(2) by (auto simp add: material_ok_def split: option.splits)
  have v: "val_band_3D cs ?bs 0 0 = Inr (Some 0)"
    using a by (simp add: val_band_3D_def parabola_def np_get_def attr_def py_div_def
        BandStructure3D_init_def)
  have "dipole_3D cs ?bs 0 0 0 =
     Inr (np_div (sqrt (const_e cs * ep * (const_h cs)\<^sup>2 / (2 * const_m0 cs)) * Eg (mat ?bs))
            (Eg m - 0))"
    using assms(1) _ ep _ _ c v by (rule dipole_3D_value)
      (use assms(3) in \<open>simp_all add: BandStructure3D_init_def\<close>)
  then show "dipole_3D cs ?bs 0 0 0 =
      Inr (Fin (sqrt (const_e cs * ep * const_h cs / const_m0 cs * const_h cs / 2)))"
    using g by (simp add: np_div_def BandStructure3D_init_def power2_eq_square)
qed

theorem dipole_3D_formula_witness:
  "dipole_3D si_constants
     (BandStructure3D_init (GaAs_default si_constants)
        [0, 0.3 * const_e si_constants] [0, - 0.1 * const_e si_constants]) 0 0 0 =
   Inr (Fin (sqrt (const_e si_constants * 28.8 * const_h si_constants / const_m0 si_constants *
                   const_h si_constants / 2)))"
proof -
  have a: "material_ok (GaAs_default si_constants)"
    by (rule GaAs_default_ok) (rule si_constants_ok)
  have b: "e_P (GaAs_default si_constants) = Some 28.8"
    by (simp add: GaAs_default_def)
  have c: "Eg (GaAs_default si_constants) \<noteq> 0"
    by (simp add: GaAs_default_def si_constants_def)
  from dipole_3D_formula [OF si_constants_ok a b, THEN conjunct2] c show ?thesis
    by (rule mp)
qed

subsection \<open>Fermi levels: the cache and the tables\<close>

lemma np_min_Min:
  assumes "xs \<noteq> []"
  shows "np_min xs = Inr (Min (set xs))"
proof (cases xs)
  case Nil
  then show ?thesis using assms by simp
next
  case (Cons a l)
  then show ?thesis using Min.set_eq_fold [of a l] by (simp add: np_min_def)
qed

lemma length_linspace [simp]: "length (linspace a b n) = n"
  by (simp add: linspace_def)

lemma linspace_nth:
  assumes "i < n" and "2 \<le> n"
  shows "linspace a b n ! i = a + real i * ((b - a) / real (n - 1))"
proof (cases "i < n - 1")
  case True
  then show ?thesis using assms by (simp add: linspace_def nth_append)
next
  case False
  with assms have i: "i = n - 1" by simp
  have "real (n - 1) \<noteq> 0" using assms by simp
  then have "a + real (n - 1) * ((b - a) / real (n - 1)) = b" by simp
  then show ?thesis using assms i by (simp add: linspace_def nth_append)
qed

lemma linspace_ne: "0 < n \<Longrightarrow> linspace a b n \<noteq> []"
  by (simp add: linspace_def)

lemma linspace_hd: "2 \<le> n \<Longrightarrow> hd (linspace a b n) = a"
  using linspace_nth [of 0 n a b] by (simp add: hd_conv_nth linspace_ne)

lemma linspace_last: "2 \<le> n \<Longrightarrow> last (linspace a b n) = b"
  by (simp add: linspace_def)

lemma conc_loop_ok:
  "\<forall>p\<in>set ps. f p = Inr (g p) \<Longrightarrow> conc_loop f ps = Inr (map g ps)"
  by (induction ps) simp_all

lemma conc_loop_fail:
  "ps \<noteq> [] \<Longrightarrow> f (hd ps) = Inl er \<Longrightarrow> conc_loop f ps = Inl er"
  by (cases ps) simp_all

lemma dos_body_ef_update [simp]:
  "dos_electron_body cs (bs\<lparr>ef := c\<rparr>) = dos_electron_body cs bs"
  "dos_hole_body cs (bs\<lparr>ef := c\<rparr>) = dos_hole_body cs bs"
  by (intro ext, simp add: dos_electron_body_def dos_hole_body_def
      split: sum.splits mass.splits)+

lemma dos_ef_update [simp]: "dos cs (bs\<lparr>ef := c\<rparr>) = dos cs bs"
  by (intro ext) (simp add: dos_def)

lemma carrier_density_ef_update [simp]:
  "carrier_density cs (bs\<lparr>ef := c\<rparr>) = carrier_density cs bs"
  by (intro ext) (simp add: carrier_density_def)

lemma fermi_interp_ef_update [simp]:
  "fermi_interp cs (bs\<lparr>ef := c\<rparr>) = fermi_interp cs bs"
  by (intro ext) (simp add: fermi_interp_def)



lemma linspace_evenly_spaced: "2 \<le> n \<Longrightarrow> linspace a b n = evenly_spaced a b n"
  by (rule nth_equalityI) (simp_all add: linspace_nth evenly_spaced_def)

lemma map2_map_map: "map2 f (map g xs) (map h xs) = map (\<lambda>x. f (g x) (h x)) xs"
  by (induction xs) simp_all

lemma fd_fin:
  assumes "tempr \<noteq> 0"
  shows "fd E efl tempr = Fin (1 / (1 + exp ((E - efl) / (8.61733 / 10 ^ 5 * tempr))))"
proof -
  have "0 < 1 + exp ((E - efl) / (8.61733 / 10 ^ 5 * tempr))"
    by (simp add: add_pos_pos)
  then have "1 + exp ((E - efl) / (8.61733 / 10 ^ 5 * tempr)) \<noteq> 0"
    by simp
  then show ?thesis using assms by (simp add: fd_def np_div_def)
qed

lemma trapezoid_sum_Cons:
  "trapezoid_sum (y1 # y2 # ys) (x1 # x2 # xs) =
     (x2 - x1) * (y2 + y1) / 2 + trapezoid_sum (y2 # ys) (x2 # xs)"
proof -
  let ?f = "\<lambda>i. ((x1 # x2 # xs) ! Suc i - (x1 # x2 # xs) ! i) *
                 ((y1 # y2 # ys) ! Suc i + (y1 # y2 # ys) ! i) / 2"
  have "trapezoid_sum (y1 # y2 # ys) (x1 # x2 # xs) = (\<Sum>i<Suc (length xs). ?f i)"
    by (simp add: trapezoid_sum_def)
  also have "\<dots> = ?f 0 + (\<Sum>i<length xs. ?f (Suc i))"
    by (rule sum.lessThan_Suc_shift)
  finally show ?thesis by (simp add: trapezoid_sum_def)
qed

lemma trapz_Fin:
  "length ys = length xs \<Longrightarrow> trapz (map Fin ys) xs = Fin (trapezoid_sum ys xs)"
proof (induction ys xs rule: list_induct2)
  case Nil
  then show ?case by (simp add: trapezoid_sum_def)
next
  case (Cons y ys x xs)
  show ?case
  proof (cases ys)
    case Nil
    then show ?thesis using Cons.hyps by (simp add: trapezoid_sum_def)
  next
    case c: (Cons y2 ys')
    then obtain x2 xs' where x: "xs = x2 # xs'"
      using Cons.hyps by (cases xs) simp_all
    show ?thesis
      using Cons.IH unfolding c x
      by (simp add: trapezoid_sum_Cons np_div_def)
  qed
qed

lemma fermi_interp_dos_ok:
  assumes "dos cs bs energy carriers = Inr ds"
  shows "fermi_interp cs bs tempr carriers probe energy =
     Inr (interp1d
            (map (\<lambda>efl. trapz (map2 npf_mul (map (\<lambda>E. fd E efl tempr) energy) (map Fin ds))
                          (map (\<lambda>E. E * const_e cs) energy)) probe)
            probe)"
  by (simp add: fermi_interp_def carrier_density_def assms
      conc_loop_ok [where g = "\<lambda>efl. trapz (map2 npf_mul (map (\<lambda>E. fd E efl tempr) energy)
                                  (map Fin ds)) (map (\<lambda>E. E * const_e cs) energy)"])

lemma density_trapz:
  assumes "tempr \<noteq> 0"
  shows "trapz (map2 npf_mul (map (\<lambda>E. fd E efl tempr) energy) (map Fin (map g energy)))
           (map (\<lambda>E. E * const_e cs) energy) =
         Fin (density_integral cs tempr g energy efl)"
proof -
  have e: "map2 npf_mul (map (\<lambda>E. fd E efl tempr) energy) (map Fin (map g energy)) =
        map Fin (map (\<lambda>E. 1 / (1 + exp ((E - efl) / (8.61733 / 10 ^ 5 * tempr))) * g E) energy)"
    by (simp add: map2_map_map fd_fin [OF assms] comp_def)
  have "trapz
          (map Fin (map (\<lambda>E. 1 / (1 + exp ((E - efl) / (8.61733 / 10 ^ 5 * tempr))) * g E) energy))
          (map (\<lambda>E. E * const_e cs) energy) =
        Fin (trapezoid_sum
          (map (\<lambda>E. 1 / (1 + exp ((E - efl) / (8.61733 / 10 ^ 5 * tempr))) * g E) energy)
          (map (\<lambda>E. E * const_e cs) energy))"
    by (rule trapz_Fin) simp
  then show ?thesis unfolding e density_integral_def .
qed

lemma fermi_interp_electrons:
  assumes "n_sb_e bs \<le> length (edges_c bs)" and "0 < me (mat bs)" and "const_h cs \<noteq> 0"
    and "tempr \<noteq> 0"
  shows "fermi_interp cs bs tempr ''electrons'' probe energy =
     Inr (fermi_table cs tempr (electron_dos cs bs) probe energy)"
proof -
  have d: "dos cs bs energy ''electrons'' = Inr (map (electron_dos cs bs) energy)"
    using dos_electrons_ok [OF assms(1-3), of energy] by (simp add: electron_dos_def)
  show ?thesis
    unfolding fermi_interp_dos_ok [OF d] fermi_table_def density_trapz [OF assms(4)] ..
qed

lemma fermi_interp_holes:
  assumes "n_sb_h bs \<le> length (edges_v bs)" and "mh (mat bs) = MTuple t"
    and "n_sb_h bs \<le> length t" and "\<forall>j<n_sb_h bs. 0 < t ! j" and "const_h cs \<noteq> 0"
    and "tempr \<noteq> 0"
  shows "fermi_interp cs bs tempr ''holes'' probe energy =
     Inr (fermi_table cs tempr (hole_dos cs bs t) probe energy)"
proof -
  have d: "dos cs bs energy ''holes'' = Inr (map (hole_dos cs bs t) energy)"
    using dos_holes_ok [OF _ assms(1-5), of "''holes''" energy] by (simp add: hole_dos_def)
  show ?thesis
    unfolding fermi_interp_dos_ok [OF d] fermi_table_def density_trapz [OF assms(6)] ..
qed

lemma fermi_cache_miss_ok:
  assumes "const_h cs \<noteq> 0" and "0 < me (mat bs)" and "mh (mat bs) = MTuple t"
    and "n_sb_h bs \<le> length t" and "\<forall>j<n_sb_h bs. 0 < t ! j"
    and "model_ok bs" and "0 < n_sb_e bs" and "0 < n_sb_h bs" and "tempr \<noteq> 0"
  shows "fermi_cache_miss cs bs tempr =
     (Inr (), bs\<lparr>ef := (ef bs)(tempr \<mapsto>
         \<lparr>elec = Some (electron_table cs bs tempr), holes = Some (hole_table cs bs t tempr)\<rparr>)\<rparr>)"
proof -
  have ne: "edges_c bs \<noteq> []" "map uminus (edges_v bs) \<noteq> []"
    using assms(6,7,8) by (auto simp add: model_ok_def)
  have le: "n_sb_e bs \<le> length (edges_c bs)" "n_sb_h bs \<le> length (edges_v bs)"
    using assms(6) by (simp_all add: model_ok_def)
  show ?thesis
    by (simp add: fermi_cache_miss_def np_min_Min [OF ne(1)] np_min_Min [OF ne(2)] Let_def
        fermi_interp_electrons [OF le(1) assms(2) assms(1) assms(9)]
        fermi_interp_holes [OF le(2) assms(3) assms(4) assms(5) assms(1) assms(9)]
        linspace_evenly_spaced electron_table_def hole_table_def del: set_map)
qed

lemma dos_loop_fail_append:
  assumes "\<forall>i\<in>set xs. \<exists>d. f i = Inr d" and "f j = Inl er"
  shows "dos_loop f (xs @ j # ys) acc = Inl er"
  using assms by (induction xs arbitrary: acc) auto

lemma dos_loop_fail:
  assumes "j < n" and "f j = Inl er" and "\<forall>i<j. \<exists>d. f i = Inr d"
  shows "dos_loop f [0..<n] acc = Inl er"
proof -
  have "[0..<n] = [0..<j] @ [j..<n]"
    using assms(1) upt_add_eq_append [of 0 j "n - j"] by simp
  also have "[j..<n] = j # [Suc j..<n]"
    using assms(1) by (rule upt_conv_Cons)
  finally have "[0..<n] = [0..<j] @ j # [Suc j..<n]" .
  then show ?thesis using assms by (simp add: dos_loop_fail_append)
qed

lemma dos_holes_beyond_tuple:
  assumes "const_h cs \<noteq> 0" and "mh (mat bs) = MTuple t" and "\<forall>j<length t. 0 < t ! j"
    and "n_sb_h bs = length (edges_v bs)" and "length t < n_sb_h bs"
    and "carriers \<noteq> ''electrons''"
  shows "dos cs bs energy carriers = Inl IndexError"
proof -
  have lt: "length t < length (edges_v bs)"
    using assms(4,5) by simp
  have "np_get t (int (length t)) = Inl IndexError"
    by (simp add: np_get_def)
  then have a: "dos_hole_body cs bs energy (length t) = Inl IndexError"
    using assms(2) lt by (simp add: dos_hole_body_def np_get_nat)
  have b: "\<forall>i<length t. \<exists>d. dos_hole_body cs bs energy i = Inr d"
  proof (intro allI impI)
    fix i assume i: "i < length t"
    then have "i < length (edges_v bs)" using lt by simp
    from dos_hole_body_ok [OF this assms(2) i _ assms(1)] assms(3) i
    show "\<exists>d. dos_hole_body cs bs energy i = Inr d" by blast
  qed
  have "dos_loop (dos_hole_body cs bs energy) [0..<n_sb_h bs] (replicate (length energy) 0) =
        Inl IndexError"
    by (rule dos_loop_fail [OF assms(5) a b])
  then show ?thesis using assms(6) by (simp add: dos_def)
qed

lemma fermi_lookup_frame [simp]:
  "fermi_lookup cs' (bs\<lparr>mat := m', bs_dim := d'\<rparr>) tempr dens =
   fermi_lookup cs' bs tempr dens"
  by (simp add: fermi_lookup_def split: option.splits sum.splits)




lemma length_interp1d:
  "length (ip_x (interp1d x y)) = min (length x) (length y)"
  "length (ip_y (interp1d x y)) = min (length x) (length y)"
  by (simp_all add: interp1d_def Let_def)

lemma length_evenly_spaced [simp]: "length (evenly_spaced a b n) = n"
  by (simp add: evenly_spaced_def)

lemma length_fermi_table:
  "length (ip_x (fermi_table cs tempr g probe energy)) = length probe"
  "length (ip_y (fermi_table cs tempr g probe energy)) = length probe"
  by (simp_all add: fermi_table_def length_interp1d)

lemma searchsorted_le: "searchsorted xs v \<le> length xs"
  by (simp add: searchsorted_def)

text \<open>The two sample indices an interpolant with at least two samples uses.\<close>

lemma interp_call_value:
  assumes "length (ip_x f) = n" and "length (ip_y f) = n" and "2 \<le> n"
  shows "interp_call f v =
     (let hi = min (n - 1) (max (searchsorted (ip_x f) v) 1); lo = hi - 1
      in Inr (npf_add
           (npf_mul (npf_div (Fin (ip_y f ! hi - ip_y f ! lo)) (npf_sub (ip_x f ! hi) (ip_x f ! lo)))
              (npf_sub (Fin v) (ip_x f ! lo)))
           (Fin (ip_y f ! lo))))"
proof -
  define k where "k = searchsorted (ip_x f) v"
  define hi where "hi = min (n - 1) (max k 1)"
  have hi: "1 \<le> hi" "hi < n" using assms(3) by (simp_all add: hi_def)
  have ih: "min (int n - 1) (max (int k) 1) = int hi"
    using assms(3) unfolding hi_def min_def max_def by (auto; linarith)
  have il: "int hi - 1 = int (hi - 1)" using hi by simp
  have g: "np_get (ip_x f) (int hi) = Inr (ip_x f ! hi)"
          "np_get (ip_y f) (int hi) = Inr (ip_y f ! hi)"
          "np_get (ip_x f) (int (hi - 1)) = Inr (ip_x f ! (hi - 1))"
          "np_get (ip_y f) (int (hi - 1)) = Inr (ip_y f ! (hi - 1))"
    by (rule np_get_nat, use hi assms(1,2) in simp)+
  show ?thesis
    unfolding interp_call_def assms(1) k_def [symmetric] Let_def ih il g hi_def [symmetric]
    by simp
qed

lemma interp_call_total:
  assumes "length (ip_x f) = n" and "length (ip_y f) = n" and "2 \<le> n"
  shows "\<exists>r. interp_call f v = Inr r"
  using interp_call_value [OF assms, of v] by (simp add: Let_def)

lemma get_Fermi_levels_first:
  assumes "ef bs tempr = None"
    and "const_h cs \<noteq> 0" and "0 < me (mat bs)" and "mh (mat bs) = MTuple t"
    and "n_sb_h bs \<le> length t" and "\<forall>j<n_sb_h bs. 0 < t ! j"
    and "model_ok bs" and "0 < n_sb_e bs" and "0 < n_sb_h bs" and "tempr \<noteq> 0"
  shows "\<exists>ef_h ef_el.
     interp_call (hole_table cs bs t tempr) dens = Inr ef_h \<and>
     interp_call (electron_table cs bs tempr) dens = Inr ef_el \<and>
     get_Fermi_levels cs bs tempr dens =
       (Inr (npf_mul (npf_sub (npf_neg ef_h) (Fin (Min (set (map uminus (edges_v bs))))))
               (Fin (const_e cs)),
             npf_mul (npf_add ef_el (Fin (Min (set (edges_c bs))))) (Fin (const_e cs))),
        bs\<lparr>ef := (ef bs)(tempr \<mapsto>
             \<lparr>elec = Some (electron_table cs bs tempr),
              holes = Some (hole_table cs bs t tempr)\<rparr>)\<rparr>)"
proof -
  let ?bs' = "bs\<lparr>ef := (ef bs)(tempr \<mapsto>
             \<lparr>elec = Some (electron_table cs bs tempr),
              holes = Some (hole_table cs bs t tempr)\<rparr>)\<rparr>"
  have ne: "edges_c bs \<noteq> []" "map uminus (edges_v bs) \<noteq> []"
    using assms(7,8,9) by (auto simp add: model_ok_def)
  obtain ef_h where h: "interp_call (hole_table cs bs t tempr) dens = Inr ef_h"
    using interp_call_total [of "hole_table cs bs t tempr" 550 dens]
    by (auto simp add: hole_table_def Let_def length_fermi_table)
  obtain ef_el where e: "interp_call (electron_table cs bs tempr) dens = Inr ef_el"
    using interp_call_total [of "electron_table cs bs tempr" 50 dens]
    by (auto simp add: electron_table_def Let_def length_fermi_table)
  have m: "fermi_cache_miss cs bs tempr = (Inr (), ?bs')"
    using assms(2-10) by (rule fermi_cache_miss_ok)
  have l: "fermi_lookup cs ?bs' tempr dens =
       Inr (npf_mul (npf_sub (npf_neg ef_h) (Fin (Min (set (map uminus (edges_v bs))))))
               (Fin (const_e cs)),
             npf_mul (npf_add ef_el (Fin (Min (set (edges_c bs))))) (Fin (const_e cs)))"
    by (simp add: fermi_lookup_def h e np_min_Min [OF ne(1)] np_min_Min [OF ne(2)] del: set_map)
  have "get_Fermi_levels cs bs tempr dens = (fermi_lookup cs ?bs' tempr dens, ?bs')"
    using assms(1) by (simp add: get_Fermi_levels_def m)
  with h e l show ?thesis by simp
qed

subsection \<open>More valence edges than valence masses\<close>

lemma material_ok_tuple:
  assumes "material_ok m"
  obtains a b c where "mh m = MTuple [a, b, c]" "0 < a" "0 < b" "0 < c" "0 < me m"
  using assms by (auto simp add: material_ok_def split: option.splits)

lemma tuple3_pos:
  "0 < a \<Longrightarrow> 0 < b \<Longrightarrow> 0 < c \<Longrightarrow> \<forall>j<length [a, b, c :: real]. 0 < [a, b, c] ! j"
  by (simp add: nth_Cons' less_Suc_eq numeral_3_eq_3)

lemma model_ok_init: "model_ok (BandStructure3D_init m ec ev)"
  by (simp add: model_ok_def BandStructure3D_init_def)

lemma fermi_interp_holes_fail:
  assumes "dos cs bs energy ''holes'' = Inl er" and "probe \<noteq> []"
  shows "fermi_interp cs bs tempr ''holes'' probe energy = Inl er"
proof -
  have "carrier_density cs bs tempr ''holes'' energy (hd probe) = Inl er"
    using assms(1) by (simp add: carrier_density_def)
  then have "conc_loop (carrier_density cs bs tempr ''holes'' energy) probe = Inl er"
    using assms(2) by (intro conc_loop_fail)
  then show ?thesis by (simp add: fermi_interp_def)
qed

lemma get_Fermi_levels_beyond_tuple:
  assumes "ef bs tempr = None"
    and "const_h cs \<noteq> 0" and "0 < me (mat bs)" and "mh (mat bs) = MTuple t"
    and "\<forall>j<length t. 0 < t ! j"
    and "model_ok bs" and "0 < n_sb_e bs" and "length t < n_sb_h bs"
  shows "fst (get_Fermi_levels cs bs tempr dens) = Inl IndexError"
proof -
  have ne: "edges_c bs \<noteq> []" "map uminus (edges_v bs) \<noteq> []"
    using assms(6,7,8) by (auto simp add: model_ok_def)
  have le: "n_sb_e bs \<le> length (edges_c bs)" "n_sb_h bs = length (edges_v bs)"
    using assms(6) by (simp_all add: model_ok_def)
  have d: "dos cs bs energy ''holes'' = Inl IndexError" for energy
    using assms(2,4,5) le(2) assms(8) by (rule dos_holes_beyond_tuple) simp
  have h: "fermi_interp cs bs tempr ''holes'' (linspace a b 550) energy = Inl IndexError"
    for a b energy
    using d by (rule fermi_interp_holes_fail) (simp add: linspace_ne)
  have "fst (fermi_cache_miss cs bs tempr) = Inl IndexError"
    by (simp add: fermi_cache_miss_def np_min_Min [OF ne(1)] np_min_Min [OF ne(2)] Let_def
        fermi_interp_dos_ok [OF dos_electrons_ok [OF le(1) assms(3) assms(2)]] h del: set_map)
  then obtain bs' where "fermi_cache_miss cs bs tempr = (Inl IndexError, bs')"
    by (cases "fermi_cache_miss cs bs tempr") simp
  then show ?thesis
    using assms(1) by (simp add: get_Fermi_levels_def)
qed

text \<open>
  C10. The hole loop of \<^verbatim>\<open>dos\<close> indexes the material's tuple of three valence masses
  by the subband number. For positive constants and a material with three positive
  valence masses, a bulk model constructed with more than three valence edges is accepted
  by the constructor (it counts all of them), \<^verbatim>\<open>dos\<close> for holes raises
  \<^verbatim>\<open>IndexError\<close> for every energy array, and the first call of
  \<^verbatim>\<open>get_Fermi_levels\<close> at any temperature, on a model with at least one conduction
  edge, raises the same \<^verbatim>\<open>IndexError\<close> instead of returning a value.
\<close>

theorem more_than_three_valence_edges_fail:
  assumes "consts_ok cs" and "material_ok m" and "3 < length ev"
  shows "n_sb_h (BandStructure3D_init m ec ev) = length ev \<and>
         dos cs (BandStructure3D_init m ec ev) energy ''holes'' = Inl IndexError \<and>
         (ec \<noteq> [] \<longrightarrow>
            fst (get_Fermi_levels cs (BandStructure3D_init m ec ev) tempr dens) = Inl IndexError)"
proof -
  let ?bs = "BandStructure3D_init m ec ev"
  from assms(2) obtain a b c where t: "mh m = MTuple [a, b, c]"
    and pos: "0 < a" "0 < b" "0 < c" "0 < me m"
    by (rule material_ok_tuple)
  have h: "const_h cs \<noteq> 0" using assms(1) by (simp add: consts_ok_def)
  have mt: "mh (mat ?bs) = MTuple [a, b, c]" "0 < me (mat ?bs)"
    using t pos by (simp_all add: BandStructure3D_init_def)
  have n: "n_sb_h ?bs = length ev" "n_sb_h ?bs = length (edges_v ?bs)"
      "length [a, b, c] < n_sb_h ?bs" "ef ?bs tempr = None"
    using assms(3) by (simp_all add: BandStructure3D_init_def)
  have p: "\<forall>j<length [a, b, c]. 0 < [a, b, c] ! j"
    using pos by (intro tuple3_pos)
  have d: "dos cs ?bs energy ''holes'' = Inl IndexError"
    using h mt(1) p n(2) n(3) by (rule dos_holes_beyond_tuple) simp
  have f: "fst (get_Fermi_levels cs ?bs tempr dens) = Inl IndexError" if "ec \<noteq> []"
    using n(4) h mt(2) mt(1) p model_ok_init _ n(3)
    by (rule get_Fermi_levels_beyond_tuple) (use that in \<open>simp add: BandStructure3D_init_def\<close>)
  from n(1) d f show ?thesis by blast
qed

theorem more_than_three_valence_edges_fail_witness:
  "n_sb_h (BandStructure3D_init (GaAs_default si_constants) [0] [0, 0, 0, 0]) = 4 \<and>
   dos si_constants (BandStructure3D_init (GaAs_default si_constants) [0] [0, 0, 0, 0]) [1]
     ''holes'' = Inl IndexError \<and>
   fst (get_Fermi_levels si_constants
          (BandStructure3D_init (GaAs_default si_constants) [0] [0, 0, 0, 0]) 300 1) =
     Inl IndexError"
proof -
  have a: "material_ok (GaAs_default si_constants)"
    by (rule GaAs_default_ok) (rule si_constants_ok)
  have b: "3 < length [0, 0, 0, 0 :: real]" by simp
  note th = more_than_three_valence_edges_fail [OF si_constants_ok a b, of "[0]" "[1]" 300 1]
  have c: "[0 :: real] \<noteq> []" by simp
  from th c show ?thesis by simp
qed

subsection \<open>The first call at a temperature\<close>

lemma evenly_spaced_ends:
  assumes "2 \<le> n"
  shows "length (evenly_spaced a b n) = n \<and> hd (evenly_spaced a b n) = a \<and>
         last (evenly_spaced a b n) = b"
  using linspace_hd [OF assms, of a b] linspace_last [OF assms, of a b]
  by (simp add: linspace_evenly_spaced [OF assms])

lemma example_model:
  fixes cbs
  defines "cbs \<equiv> BandStructure3D_init (GaAs_default si_constants) [0] [0, 0]"
  shows "ef cbs tempr = None" and "const_h si_constants \<noteq> 0"
    and "0 < me (mat cbs)"
    and "mh (mat cbs) =
       MTuple [const_m0 si_constants / 2.86, const_m0 si_constants / 11.1,
               0.172 * const_m0 si_constants]"
    and "n_sb_h cbs \<le> length [const_m0 si_constants / 2.86, const_m0 si_constants / 11.1,
               0.172 * const_m0 si_constants]"
    and "\<forall>j<n_sb_h cbs. 0 < [const_m0 si_constants / 2.86, const_m0 si_constants / 11.1,
               0.172 * const_m0 si_constants] ! j"
    and "model_ok cbs" and "0 < n_sb_e cbs" and "0 < n_sb_h cbs" and "n_sb_h cbs \<le> 3"
    and "material_ok (mat cbs)" and "dom (ef cbs) = {}"
proof -
  show "material_ok (mat cbs)"
    using GaAs_default_ok [OF si_constants_ok] by (simp add: cbs_def BandStructure3D_init_def)
  show "\<forall>j<n_sb_h cbs. 0 < [const_m0 si_constants / 2.86, const_m0 si_constants / 11.1,
               0.172 * const_m0 si_constants] ! j"
    by (simp add: cbs_def BandStructure3D_init_def si_constants_def less_Suc_eq numeral_2_eq_2)
qed (simp_all add: cbs_def BandStructure3D_init_def GaAs_default_def si_constants_def model_ok_def)

lemma dos_elem_above:
  assumes "0 < const_e cs" and "0 < E"
  shows "dos_elem cs P d E = P * (E * const_e cs) powr ((real d - 2) / 2)"
  using assms by (simp add: dos_elem_def np_pow_def)

lemma density_integral_sum:
  "density_integral cs tempr g energy efl =
     (\<Sum>i<length energy - 1.
        (energy ! Suc i * const_e cs - energy ! i * const_e cs) *
        (1 / (1 + exp ((energy ! Suc i - efl) / (8.61733 / 10 ^ 5 * tempr))) * g (energy ! Suc i) +
         1 / (1 + exp ((energy ! i - efl) / (8.61733 / 10 ^ 5 * tempr))) * g (energy ! i)) / 2)"
  unfolding density_integral_def trapezoid_sum_def
  by (rule sum.cong) simp_all

text \<open>
  C1. Let the temperature \<open>tempr\<close> be positive and uncached in a model with one to three
  valence edges and at least one conduction edge, over a material with three positive
  valence masses, with positive constants. Write \<open>cbb\<close> for the least conduction edge and
  \<open>vbt\<close> for the least negated valence edge (the valence-band top on the hole energy
  scale), both divided by \<^verbatim>\<open>const.e\<close>. The occupation \<^verbatim>\<open>fd\<close> is the finite number
  \<open>1 / (1 + exp ((E - Ef) / (kB T)))\<close> with \<open>kB = 8.61733e-5\<close>; the density integral for a
  candidate Fermi energy is the trapezoidal sum, over the energies times \<^verbatim>\<open>const.e\<close>, of
  the occupation times the density of states; the density-of-states kernel is 0 below the
  band edge and \<open>P (E e) ^ ((d - 2) / 2)\<close> above it. The call
  \<^verbatim>\<open>get_Fermi_levels(tempr, dens)\<close> stores and uses two interpolants from integrated
  density to candidate Fermi energy. For electrons the candidates are 50 evenly spaced
  values from half the gap to \<open>cbb + 1.5\<close>, each integrated with the electron density of
  states over 3000 evenly spaced energies from \<open>cbb - 0.5\<close> to \<open>cbb + 5\<close>. For holes they
  are 550 values from minus half the gap to \<open>vbt + 1.0\<close>, integrated with the hole density
  of states over 350 energies from \<open>vbt\<close> to \<open>vbt + 10\<close>. An evenly spaced grid has the
  stated length, first and last point. The call returns the pair
  \<open>((- ef_h - min (- edges_v)) * e, (ef_el + min edges_c) * e)\<close> of the hole and electron
  levels read from the two interpolants at the density.
\<close>

theorem first_call_builds_tables:
  assumes "ef bs tempr = None" and "0 < tempr"
    and "consts_ok cs" and "material_ok (mat bs)" and "mh (mat bs) = MTuple t"
    and "model_ok bs" and "0 < n_sb_e bs" and "0 < n_sb_h bs" and "n_sb_h bs \<le> 3"
  shows
    "(\<forall>E efl. fd E efl tempr =
        Fin (1 / (1 + exp ((E - efl) / (8.61733 / 10 ^ 5 * tempr))))) \<and>
     (\<forall>g energy efl. density_integral cs tempr g energy efl =
        (\<Sum>i<length energy - 1.
           (energy ! Suc i * const_e cs - energy ! i * const_e cs) *
           (1 / (1 + exp ((energy ! Suc i - efl) / (8.61733 / 10 ^ 5 * tempr))) *
              g (energy ! Suc i) +
            1 / (1 + exp ((energy ! i - efl) / (8.61733 / 10 ^ 5 * tempr))) *
              g (energy ! i)) / 2)) \<and>
     (\<forall>P d E. 0 < P \<longrightarrow>
        (E < 0 \<longrightarrow> dos_elem cs P d E = 0) \<and>
        (0 < E \<longrightarrow> dos_elem cs P d E = P * (E * const_e cs) powr ((real d - 2) / 2))) \<and>
     (\<forall>g probe energy. fermi_table cs tempr g probe energy =
        interp1d (map (\<lambda>efl. Fin (density_integral cs tempr g energy efl)) probe) probe) \<and>
     electron_table cs bs tempr =
       fermi_table cs tempr (electron_dos cs bs)
         (evenly_spaced (Eg (mat bs) / const_e cs * 0.5)
            (Min (set (edges_c bs)) / const_e cs + 1.5) 50)
         (evenly_spaced (Min (set (edges_c bs)) / const_e cs - 0.5)
            (Min (set (edges_c bs)) / const_e cs + 5) 3000) \<and>
     hole_table cs bs t tempr =
       fermi_table cs tempr (hole_dos cs bs t)
         (evenly_spaced (- Eg (mat bs) / const_e cs * 0.5)
            (Min (set (map uminus (edges_v bs))) / const_e cs + 1.0) 550)
         (evenly_spaced (Min (set (map uminus (edges_v bs))) / const_e cs)
            (Min (set (map uminus (edges_v bs))) / const_e cs + 10) 350) \<and>
     (\<forall>a b n. 2 \<le> n \<longrightarrow>
        length (evenly_spaced a b n) = n \<and> hd (evenly_spaced a b n) = a \<and>
        last (evenly_spaced a b n) = b) \<and>
     (\<exists>ef_h ef_el.
        interp_call (hole_table cs bs t tempr) dens = Inr ef_h \<and>
        interp_call (electron_table cs bs tempr) dens = Inr ef_el \<and>
        get_Fermi_levels cs bs tempr dens =
          (Inr (npf_mul (npf_sub (npf_neg ef_h) (Fin (Min (set (map uminus (edges_v bs))))))
                  (Fin (const_e cs)),
                npf_mul (npf_add ef_el (Fin (Min (set (edges_c bs))))) (Fin (const_e cs))),
           bs\<lparr>ef := (ef bs)(tempr \<mapsto>
                \<lparr>elec = Some (electron_table cs bs tempr),
                 holes = Some (hole_table cs bs t tempr)\<rparr>)\<rparr>))"
proof -
  from assms(4) obtain a b c where t3: "mh (mat bs) = MTuple [a, b, c]"
    and pos: "0 < a" "0 < b" "0 < c" "0 < me (mat bs)"
    by (rule material_ok_tuple)
  have t: "t = [a, b, c]" using t3 assms(5) by simp
  have le: "n_sb_h bs \<le> length t" using assms(9) t by simp
  have p: "\<forall>j<n_sb_h bs. 0 < t ! j"
    using tuple3_pos [OF pos(1-3)] le t by auto
  have h: "const_h cs \<noteq> 0" and e: "0 < const_e cs"
    using assms(3) by (simp_all add: consts_ok_def)
  have T: "tempr \<noteq> 0" using assms(2) by simp
  note first = get_Fermi_levels_first
    [OF assms(1) h pos(4) assms(5) le p assms(6) assms(7) assms(8) T, of dens]
  have c1: "\<forall>E efl. fd E efl tempr =
        Fin (1 / (1 + exp ((E - efl) / (8.61733 / 10 ^ 5 * tempr))))"
    using fd_fin [OF T] by blast
  have c2: "\<forall>g energy efl. density_integral cs tempr g energy efl =
        (\<Sum>i<length energy - 1.
           (energy ! Suc i * const_e cs - energy ! i * const_e cs) *
           (1 / (1 + exp ((energy ! Suc i - efl) / (8.61733 / 10 ^ 5 * tempr))) *
              g (energy ! Suc i) +
            1 / (1 + exp ((energy ! i - efl) / (8.61733 / 10 ^ 5 * tempr))) *
              g (energy ! i)) / 2)"
    using density_integral_sum by blast
  have c3: "\<forall>P d E. 0 < P \<longrightarrow>
        (E < 0 \<longrightarrow> dos_elem cs P d E = 0) \<and>
        (0 < E \<longrightarrow> dos_elem cs P d E = P * (E * const_e cs) powr ((real d - 2) / 2))"
    using dos_elem_neg dos_elem_above [OF e] by blast
  have c4: "\<forall>g probe energy. fermi_table cs tempr g probe energy =
        interp1d (map (\<lambda>efl. Fin (density_integral cs tempr g energy efl)) probe) probe"
    by (simp add: fermi_table_def)
  have c5: "electron_table cs bs tempr =
       fermi_table cs tempr (electron_dos cs bs)
         (evenly_spaced (Eg (mat bs) / const_e cs * 0.5)
            (Min (set (edges_c bs)) / const_e cs + 1.5) 50)
         (evenly_spaced (Min (set (edges_c bs)) / const_e cs - 0.5)
            (Min (set (edges_c bs)) / const_e cs + 5) 3000)"
    by (simp add: electron_table_def Let_def)
  have c6: "hole_table cs bs t tempr =
       fermi_table cs tempr (hole_dos cs bs t)
         (evenly_spaced (- Eg (mat bs) / const_e cs * 0.5)
            (Min (set (map uminus (edges_v bs))) / const_e cs + 1.0) 550)
         (evenly_spaced (Min (set (map uminus (edges_v bs))) / const_e cs)
            (Min (set (map uminus (edges_v bs))) / const_e cs + 10) 350)"
    by (simp add: hole_table_def Let_def del: set_map)
  have c7: "\<forall>a b n. 2 \<le> n \<longrightarrow>
        length (evenly_spaced a b n) = n \<and> hd (evenly_spaced a b n) = a \<and>
        last (evenly_spaced a b n) = b"
    using evenly_spaced_ends by blast
  show ?thesis
    by (intro conjI c1 c2 c3 c4 c5 c6 c7 first)
qed

theorem first_call_builds_tables_witness:
  "\<exists>ef_h ef_el.
     get_Fermi_levels si_constants
       (BandStructure3D_init (GaAs_default si_constants) [0] [0, 0]) 300 1 =
     (Inr (npf_mul
             (npf_sub (npf_neg ef_h)
                (Fin (Min (set (map uminus
                   (edges_v (BandStructure3D_init (GaAs_default si_constants) [0] [0, 0])))))))
             (Fin (const_e si_constants)),
           npf_mul
             (npf_add ef_el
                (Fin (Min (set
                   (edges_c (BandStructure3D_init (GaAs_default si_constants) [0] [0, 0]))))))
             (Fin (const_e si_constants))),
      (BandStructure3D_init (GaAs_default si_constants) [0] [0, 0])
        \<lparr>ef := (ef (BandStructure3D_init (GaAs_default si_constants) [0] [0, 0]))(300 \<mapsto>
           \<lparr>elec = Some (electron_table si_constants
                  (BandStructure3D_init (GaAs_default si_constants) [0] [0, 0]) 300),
            holes = Some (hole_table si_constants
                  (BandStructure3D_init (GaAs_default si_constants) [0] [0, 0])
                  [const_m0 si_constants / 2.86, const_m0 si_constants / 11.1,
                   0.172 * const_m0 si_constants] 300)\<rparr>)\<rparr>)"
proof -
  have T: "(0::real) < 300" by simp
  note th = first_call_builds_tables
    [OF example_model(1) T si_constants_ok example_model(11) example_model(4) example_model(7)
        example_model(8) example_model(9) example_model(10), of 1]
  from th show ?thesis by blast
qed


subsection \<open>Monotonicity of the Fermi levels in the density\<close>

































end
